theory Spec2Isabelle
  imports Complex_Main "HOL-Library.Monad_Syntax"
begin

section \<open>JavaScript numbers and values\<close>

text \<open>
  The server (\<^verbatim>\<open>llm.js\<close>) sanitises whatever JSON value the language model returned,
  and the client (\<^verbatim>\<open>App.tsx\<close>) draws the sanitised visualisation at an elapsed time.
  Both are JavaScript, so the model starts from JavaScript's numbers and values.

  A number is a finite real or one of the three special values of IEEE arithmetic.
  Finite arithmetic is exact: rounding, overflow of the double range and the sign of zero
  are not modelled (a quotient by zero takes its sign from the numerator alone).
\<close>

datatype jsnum = Fin real | NaN | PInf | NInf

text \<open>
  A value as \<^verbatim>\<open>JSON.parse\<close> or an object literal builds it, together with \<^verbatim>\<open>undefined\<close>.
  An object is the list of its properties in insertion order; reading a property takes
  the last binding of the key.
\<close>

datatype jsval =
    JUndefined
  | JNull
  | JBool bool
  | JNum jsnum
  | JStr string
  | JArr "jsval list"
  | JObj "(string \<times> jsval) list"

definition isFinite :: "jsnum \<Rightarrow> bool" where
  "isFinite n = (case n of Fin _ \<Rightarrow> True | _ \<Rightarrow> False)"

text \<open>\<^verbatim>\<open>Math.min\<close> and \<^verbatim>\<open>Math.max\<close>: \<^verbatim>\<open>NaN\<close> if an argument is \<^verbatim>\<open>NaN\<close>.\<close>

fun Math_min :: "jsnum \<Rightarrow> jsnum \<Rightarrow> jsnum" where
  "Math_min NaN b = NaN"
| "Math_min a NaN = NaN"
| "Math_min NInf b = NInf"
| "Math_min a NInf = NInf"
| "Math_min PInf b = b"
| "Math_min a PInf = a"
| "Math_min (Fin a) (Fin b) = Fin (min a b)"

fun Math_max :: "jsnum \<Rightarrow> jsnum \<Rightarrow> jsnum" where
  "Math_max NaN b = NaN"
| "Math_max a NaN = NaN"
| "Math_max PInf b = PInf"
| "Math_max a PInf = PInf"
| "Math_max NInf b = b"
| "Math_max a NInf = a"
| "Math_max (Fin a) (Fin b) = Fin (max a b)"

fun jneg :: "jsnum \<Rightarrow> jsnum" where
  "jneg (Fin a) = Fin (- a)"
| "jneg NaN = NaN"
| "jneg PInf = NInf"
| "jneg NInf = PInf"

fun jadd :: "jsnum \<Rightarrow> jsnum \<Rightarrow> jsnum" where
  "jadd (Fin a) (Fin b) = Fin (a + b)"
| "jadd NaN b = NaN"
| "jadd a NaN = NaN"
| "jadd PInf NInf = NaN"
| "jadd NInf PInf = NaN"
| "jadd PInf b = PInf"
| "jadd a PInf = PInf"
| "jadd NInf b = NInf"
| "jadd a NInf = NInf"

definition jsub :: "jsnum \<Rightarrow> jsnum \<Rightarrow> jsnum" where
  "jsub a b = jadd a (jneg b)"

text \<open>The sign of a product or quotient with an infinite operand.\<close>

definition signed_inf :: "bool \<Rightarrow> jsnum" where
  "signed_inf positive = (if positive then PInf else NInf)"

fun jmul :: "jsnum \<Rightarrow> jsnum \<Rightarrow> jsnum" where
  "jmul (Fin a) (Fin b) = Fin (a * b)"
| "jmul NaN b = NaN"
| "jmul a NaN = NaN"
| "jmul (Fin a) PInf = (if a = 0 then NaN else signed_inf (0 < a))"
| "jmul (Fin a) NInf = (if a = 0 then NaN else signed_inf (a < 0))"
| "jmul PInf (Fin b) = (if b = 0 then NaN else signed_inf (0 < b))"
| "jmul NInf (Fin b) = (if b = 0 then NaN else signed_inf (b < 0))"
| "jmul PInf PInf = PInf"
| "jmul PInf NInf = NInf"
| "jmul NInf PInf = NInf"
| "jmul NInf NInf = PInf"

fun jdiv :: "jsnum \<Rightarrow> jsnum \<Rightarrow> jsnum" where
  "jdiv (Fin a) (Fin b) =
     (if b = 0 then (if a = 0 then NaN else signed_inf (0 < a)) else Fin (a / b))"
| "jdiv NaN b = NaN"
| "jdiv a NaN = NaN"
| "jdiv (Fin a) b = Fin 0"
| "jdiv PInf (Fin b) = signed_inf (0 \<le> b)"
| "jdiv NInf (Fin b) = signed_inf (b < 0)"
| "jdiv a b = NaN"

text \<open>
  The remainder operator \<^verbatim>\<open>%\<close>: the result has the sign of the dividend (the quotient
  is truncated towards zero).
\<close>

definition trunc :: "real \<Rightarrow> int" where
  "trunc q = (if 0 \<le> q then \<lfloor>q\<rfloor> else \<lceil>q\<rceil>)"

fun jmod :: "jsnum \<Rightarrow> jsnum \<Rightarrow> jsnum" where
  "jmod (Fin a) (Fin b) = (if b = 0 then NaN else Fin (a - b * of_int (trunc (a / b))))"
| "jmod NaN b = NaN"
| "jmod a NaN = NaN"
| "jmod (Fin a) b = Fin a"
| "jmod a b = NaN"

fun jcos :: "jsnum \<Rightarrow> jsnum" where
  "jcos (Fin a) = Fin (cos a)"
| "jcos a = NaN"

fun jsin :: "jsnum \<Rightarrow> jsnum" where
  "jsin (Fin a) = Fin (sin a)"
| "jsin a = NaN"

text \<open>Truthiness of a number and of a value (the tests \<^verbatim>\<open>!v\<close>, \<^verbatim>\<open>v || d\<close>, \<^verbatim>\<open>v && w\<close>).\<close>

definition num_truthy :: "jsnum \<Rightarrow> bool" where
  "num_truthy n = (n \<noteq> NaN \<and> n \<noteq> Fin 0)"

fun truthy :: "jsval \<Rightarrow> bool" where
  "truthy JUndefined = False"
| "truthy JNull = False"
| "truthy (JBool b) = b"
| "truthy (JNum n) = num_truthy n"
| "truthy (JStr s) = (s \<noteq> [])"
| "truthy (JArr es) = True"
| "truthy (JObj kvs) = True"

definition nullish :: "jsval \<Rightarrow> bool" where
  "nullish v = (v = JUndefined \<or> v = JNull)"

text \<open>
  Reading a property. The program reads only the keys of its own wire format; none of
  them is a property of a string, a number, a boolean or an array, except \<^verbatim>\<open>fill\<close> of an
  array, a function, which the program's only test of it (\<^verbatim>\<open>typeof p.fill === "string"\<close>)
  does not tell from \<^verbatim>\<open>undefined\<close>. So a read of anything but an object gives
  \<^verbatim>\<open>undefined\<close>.
\<close>

fun lookup :: "jsval \<Rightarrow> string \<Rightarrow> jsval" where
  "lookup (JObj kvs) k = (case map_of (rev kvs) k of Some v \<Rightarrow> v | None \<Rightarrow> JUndefined)"
| "lookup v k = JUndefined"

text \<open>\<^verbatim>\<open>v.k\<close> raises a TypeError (here \<open>None\<close>) on \<^verbatim>\<open>null\<close> and \<^verbatim>\<open>undefined\<close>; \<^verbatim>\<open>v?.k\<close> does not.\<close>

definition get :: "jsval \<Rightarrow> string \<Rightarrow> jsval option" where
  "get v k = (if nullish v then None else Some (lookup v k))"

definition getq :: "jsval \<Rightarrow> string \<Rightarrow> jsval" where
  "getq v k = (if nullish v then JUndefined else lookup v k)"

section \<open>Strings to numbers\<close>

text \<open>
  Strings are byte strings. White space is the ASCII part of what \<^verbatim>\<open>trim\<close>, \<^verbatim>\<open>\s\<close> and
  the numeric string grammar skip (tab, line feed, vertical tab, form feed, carriage
  return, space); the white space beyond ASCII is not modelled.
\<close>

definition is_ws :: "char \<Rightarrow> bool" where
  "is_ws c = (c \<in> set [CHR 0x09, CHR 0x0A, CHR 0x0B, CHR 0x0C, CHR 0x0D, CHR 0x20])"

definition trim :: "string \<Rightarrow> string" where
  "trim s = rev (dropWhile is_ws (rev (dropWhile is_ws s)))"

definition is_digit :: "char \<Rightarrow> bool" where
  "is_digit c = (48 \<le> (of_char c :: nat) \<and> (of_char c :: nat) \<le> 57)"

text \<open>The value of a digit in a radix up to sixteen, if it is one.\<close>

definition digit_of :: "nat \<Rightarrow> char \<Rightarrow> nat option" where
  "digit_of radix c =
     (let n = (of_char c :: nat);
          d = (if 48 \<le> n \<and> n \<le> 57 then Some (n - 48)
               else if 97 \<le> n \<and> n \<le> 102 then Some (n - 87)
               else if 65 \<le> n \<and> n \<le> 70 then Some (n - 55)
               else None)
      in case d of Some v \<Rightarrow> (if v < radix then Some v else None) | None \<Rightarrow> None)"

fun digits_val :: "nat \<Rightarrow> nat \<Rightarrow> string \<Rightarrow> nat option" where
  "digits_val radix acc [] = Some acc"
| "digits_val radix acc (c # cs) =
     (case digit_of radix c of
        Some d \<Rightarrow> digits_val radix (radix * acc + d) cs
      | None \<Rightarrow> None)"

text \<open>A non-empty run of digits in the radix, as a number.\<close>

definition radix_literal :: "nat \<Rightarrow> string \<Rightarrow> nat option" where
  "radix_literal radix ds = (if ds = [] then None else digits_val radix 0 ds)"

definition pow10 :: "int \<Rightarrow> real" where
  "pow10 e = (if 0 \<le> e then 10 ^ nat e else 1 / 10 ^ nat (- e))"

text \<open>The exponent part after the mantissa: nothing, or \<^verbatim>\<open>e\<close> or \<^verbatim>\<open>E\<close>, a sign, digits.\<close>

definition exponent_part :: "string \<Rightarrow> int option" where
  "exponent_part s =
     (case s of
        [] \<Rightarrow> Some 0
      | c # ds \<Rightarrow>
          if c = CHR ''e'' \<or> c = CHR ''E'' then
            (case ds of
               [] \<Rightarrow> None
             | d # ds' \<Rightarrow>
                 if d = CHR ''-'' then map_option (\<lambda>n. - int n) (radix_literal 10 ds')
                 else if d = CHR ''+'' then map_option int (radix_literal 10 ds')
                 else map_option int (radix_literal 10 ds))
          else None)"

text \<open>
  An unsigned decimal literal of the numeric string grammar: \<^verbatim>\<open>Infinity\<close>, or digits
  with an optional fraction and exponent; a digit stands before or after the point.
\<close>

definition span_digits :: "string \<Rightarrow> string \<times> string" where
  "span_digits s = (takeWhile is_digit s, dropWhile is_digit s)"

definition unsigned_decimal :: "string \<Rightarrow> jsnum" where
  "unsigned_decimal s =
     (if s = ''Infinity'' then PInf
      else
        (case span_digits s of
           (ip, r1) \<Rightarrow>
             (case (if r1 \<noteq> [] \<and> hd r1 = CHR ''.'' then span_digits (tl r1) else ([], r1)) of
                (fp, r2) \<Rightarrow>
                  if ip = [] \<and> fp = [] then NaN
                  else
                    (case (digits_val 10 0 ip, digits_val 10 0 fp, exponent_part r2) of
                       (Some i, Some f, Some e) \<Rightarrow>
                         Fin ((real i + real f / 10 ^ length fp) * pow10 e)
                     | _ \<Rightarrow> NaN))))"

definition signed_decimal :: "string \<Rightarrow> jsnum" where
  "signed_decimal s =
     (case s of
        [] \<Rightarrow> NaN
      | c # cs \<Rightarrow>
          if c = CHR ''+'' then unsigned_decimal cs
          else if c = CHR ''-'' then jneg (unsigned_decimal cs)
          else unsigned_decimal s)"

text \<open>
  \<^verbatim>\<open>Number(s)\<close> of a string: white space is trimmed, the empty string is 0, then a
  binary, octal or hexadecimal integer (no sign) or a signed decimal literal; anything
  else is \<^verbatim>\<open>NaN\<close>.
\<close>

definition radix_prefix :: "string \<Rightarrow> nat option" where
  "radix_prefix s =
     (case s of
        c # d # ds \<Rightarrow>
          if c = CHR ''0'' then
            (if d = CHR ''x'' \<or> d = CHR ''X'' then Some 16
             else if d = CHR ''o'' \<or> d = CHR ''O'' then Some 8
             else if d = CHR ''b'' \<or> d = CHR ''B'' then Some 2
             else None)
          else None
      | _ \<Rightarrow> None)"

definition StringToNumber :: "string \<Rightarrow> jsnum" where
  "StringToNumber s =
     (let t = trim s in
      if t = [] then Fin 0
      else
        (case radix_prefix t of
           Some radix \<Rightarrow>
             (case radix_literal radix (drop 2 t) of Some n \<Rightarrow> Fin (real n) | None \<Rightarrow> NaN)
         | None \<Rightarrow> signed_decimal t))"

text \<open>
  Converting an object to a primitive raises a TypeError when neither \<^verbatim>\<open>valueOf\<close> nor
  \<^verbatim>\<open>toString\<close> gives a primitive. A parsed object inherits both; its own \<^verbatim>\<open>toString\<close>
  property, never a function, hides the inherited one, and the inherited \<^verbatim>\<open>valueOf\<close>
  returns the object itself. An array is converted by joining its elements, each converted
  in turn (\<^verbatim>\<open>null\<close> and \<^verbatim>\<open>undefined\<close> give the empty string).
\<close>

fun to_primitive_raises :: "jsval \<Rightarrow> bool" where
  "to_primitive_raises (JObj kvs) = (''toString'' \<in> set (map fst kvs))"
| "to_primitive_raises (JArr es) = list_ex to_primitive_raises es"
| "to_primitive_raises v = False"

text \<open>
  \<^verbatim>\<open>Number(v)\<close> where the conversion does not raise. An object without a \<^verbatim>\<open>toString\<close>
  of its own is the string \<^verbatim>\<open>[object Object]\<close>, not a number. An array of one element is
  that element's string; of two or more, a string with a comma, not a number. A number
  printed and read again is itself.
\<close>

fun ToNumber :: "jsval \<Rightarrow> jsnum" where
  "ToNumber JUndefined = NaN"
| "ToNumber JNull = Fin 0"
| "ToNumber (JBool b) = (if b then Fin 1 else Fin 0)"
| "ToNumber (JNum n) = n"
| "ToNumber (JStr s) = StringToNumber s"
| "ToNumber (JObj kvs) = NaN"
| "ToNumber (JArr []) = Fin 0"
| "ToNumber (JArr [JUndefined]) = Fin 0"
| "ToNumber (JArr [JNull]) = Fin 0"
| "ToNumber (JArr [JBool b]) = NaN"
| "ToNumber (JArr [JNum n]) = n"
| "ToNumber (JArr [JStr s]) = StringToNumber s"
| "ToNumber (JArr [JObj kvs]) = NaN"
| "ToNumber (JArr [JArr es]) = ToNumber (JArr es)"
| "ToNumber (JArr (e # e' # es)) = NaN"

definition Number :: "jsval \<Rightarrow> jsnum option" where
  "Number v = (if to_primitive_raises v then None else Some (ToNumber v))"

section \<open>The sanitizer\<close>

subsection \<open>Helpers\<close>

definition safeNumber :: "jsval \<Rightarrow> jsnum \<Rightarrow> jsnum option" where
  "safeNumber n def = do {
     x \<leftarrow> Number n;
     Some (if isFinite x then x else def)
   }"

definition clamp :: "jsnum \<Rightarrow> jsnum \<Rightarrow> jsnum \<Rightarrow> jsnum" where
  "clamp n mn mx = Math_max mn (Math_min mx n)"

text \<open>
  The pattern \<^verbatim>\<open>clamp(safeNumber(p.k, def), mn, mx)\<close> of the sanitizer, for a property
  \<open>k\<close> of \<open>p\<close>.
\<close>

definition clamped :: "jsval \<Rightarrow> string \<Rightarrow> jsnum \<Rightarrow> jsnum \<Rightarrow> jsnum \<Rightarrow> jsnum option" where
  "clamped p k def mn mx = do {
     v \<leftarrow> get p k;
     n \<leftarrow> safeNumber v def;
     Some (clamp n mn mx)
   }"

text \<open>\<^verbatim>\<open>typeof v === "string" ? v : def\<close>.\<close>

definition string_or :: "jsval \<Rightarrow> string \<Rightarrow> string" where
  "string_or v def = (case v of JStr s \<Rightarrow> s | _ \<Rightarrow> def)"

text \<open>The decimal digits of an array index, as a template literal prints it.\<close>

definition digit_char :: "nat \<Rightarrow> char" where
  "digit_char d = ''0123456789'' ! d"

fun nat_to_string :: "nat \<Rightarrow> string" where
  "nat_to_string n =
     (if n < 10 then [digit_char n]
      else nat_to_string (n div 10) @ [digit_char (n mod 10)])"

declare nat_to_string.simps [simp del]

subsection \<open>The canonical visualisation\<close>

text \<open>
  The shapes of \<^verbatim>\<open>App.tsx\<close> (\<^verbatim>\<open>LinearAnim\<close>, \<^verbatim>\<open>OrbitAnim\<close>, the layers, \<^verbatim>\<open>VisSpec\<close>), which
  are the object literals the sanitizer returns. A property the client's type marks
  optional is an \<open>option\<close>; the sanitizer always sets it. An identifier is whatever truthy
  value the input carried.

  \<open>Linear property from to start end\<close> stands for an animation whose \<^verbatim>\<open>property\<close> is not
  \<^verbatim>\<open>"orbit"\<close>, \<open>Orbit centerX centerY radius duration\<close> for one whose \<^verbatim>\<open>property\<close> is.
\<close>

datatype anim =
    Linear string jsnum jsnum "jsnum option" "jsnum option"
  | Orbit jsnum jsnum jsnum "jsnum option"

record circle_props =
  circle_x :: jsnum
  circle_y :: jsnum
  circle_r :: jsnum
  circle_fill :: "string option"

record arrow_props =
  arrow_x :: jsnum
  arrow_y :: jsnum
  arrow_dx :: jsnum
  arrow_dy :: jsnum
  arrow_color :: "string option"

record lottie_props =
  lottie_url :: string
  lottie_x :: jsnum
  lottie_y :: jsnum
  lottie_width :: jsnum
  lottie_height :: jsnum
  lottie_loop :: bool

text \<open>A layer: its \<^verbatim>\<open>id\<close>, its \<^verbatim>\<open>props\<close> and its \<^verbatim>\<open>animations\<close>; the constructor is its \<^verbatim>\<open>type\<close>.\<close>

datatype layer =
    Circle jsval circle_props "anim list"
  | Arrow jsval arrow_props "anim list"
  | Lottie jsval lottie_props "anim list"

record vis_spec =
  vis_id :: jsval
  vis_duration :: jsnum
  vis_fps :: jsnum
  vis_layers :: "layer list"

record answer =
  ans_text :: string
  ans_visualization :: vis_spec

subsection \<open>sanitizeAnswer\<close>

text \<open>One entry of a circle's \<^verbatim>\<open>animations\<close> (the callback of the inner \<^verbatim>\<open>map\<close>).\<close>

definition sanitize_anim :: "jsnum \<Rightarrow> jsval \<Rightarrow> anim option" where
  "sanitize_anim duration a =
     (if getq a ''property'' = JStr ''orbit'' then do {
        centerX \<leftarrow> clamped a ''centerX'' (Fin 320) (Fin 0) (Fin 640);
        centerY \<leftarrow> clamped a ''centerY'' (Fin 200) (Fin 0) (Fin 400);
        radius \<leftarrow> clamped a ''radius'' (Fin 100) (Fin 10) (Fin 250);
        period \<leftarrow> clamped a ''duration'' duration (Fin 500) (Fin 10000);
        Some (Orbit centerX centerY radius (Some period))
      } else do {
        s \<leftarrow> safeNumber (getq a ''start'') (Fin 0);
        let start = clamp s (Fin 0) (jsub duration (Fin 100));
        e \<leftarrow> safeNumber (getq a ''end'') duration;
        let end = clamp e (jadd start (Fin 100)) duration;
        from \<leftarrow> safeNumber (getq a ''from'') (Fin 100);
        to \<leftarrow> safeNumber (getq a ''to'') (Fin 500);
        Some (Linear
          (if getq a ''property'' = JStr ''y'' then ''y''
           else if getq a ''property'' = JStr ''r'' then ''r'' else ''x'')
          from to (Some start) (Some end))
      })"

text \<open>\<^verbatim>\<open>l.props || {}\<close>.\<close>

definition props_of :: "jsval \<Rightarrow> jsval option" where
  "props_of l = do {
     p \<leftarrow> get l ''props'';
     Some (if truthy p then p else JObj [])
   }"

text \<open>
  One entry of \<^verbatim>\<open>layers\<close> at index \<open>i\<close> (the callback of the outer \<^verbatim>\<open>map\<close>): \<open>Some None\<close>
  is the \<^verbatim>\<open>null\<close> of an unknown type, \<open>None\<close> a raised TypeError.
\<close>

definition sanitize_layer :: "jsnum \<Rightarrow> jsval \<Rightarrow> nat \<Rightarrow> layer option option" where
  "sanitize_layer duration l i =
     (let lid = (if truthy (getq l ''id'') then getq l ''id''
                 else JStr (''layer_'' @ nat_to_string i));
          type = getq l ''type''
      in
        if type = JStr ''circle'' then do {
          p \<leftarrow> props_of l;
          x \<leftarrow> clamped p ''x'' (Fin 160) (Fin 0) (Fin 640);
          y \<leftarrow> clamped p ''y'' (Fin 200) (Fin 0) (Fin 400);
          r \<leftarrow> clamped p ''r'' (Fin 16) (Fin 1) (Fin 120);
          fill \<leftarrow> get p ''fill'';
          as \<leftarrow> get l ''animations'';
          animations \<leftarrow>
            (case as of JArr es \<Rightarrow> those (map (sanitize_anim duration) es) | _ \<Rightarrow> Some []);
          Some (Some (Circle lid
            \<lparr>circle_x = x, circle_y = y, circle_r = r,
             circle_fill = Some (string_or fill ''#3498db'')\<rparr>
            animations))
        } else if type = JStr ''arrow'' then do {
          p \<leftarrow> props_of l;
          x \<leftarrow> clamped p ''x'' (Fin 90) (Fin 0) (Fin 640);
          y \<leftarrow> clamped p ''y'' (Fin 220) (Fin 0) (Fin 400);
          dx \<leftarrow> clamped p ''dx'' (Fin 40) (Fin (- 640)) (Fin 640);
          dy \<leftarrow> clamped p ''dy'' (Fin 0) (Fin (- 400)) (Fin 400);
          color \<leftarrow> get p ''color'';
          Some (Some (Arrow lid
            \<lparr>arrow_x = x, arrow_y = y, arrow_dx = dx, arrow_dy = dy,
             arrow_color = Some (string_or color ''#e74c3c'')\<rparr>
            []))
        } else if type = JStr ''lottie'' then do {
          p \<leftarrow> props_of l;
          url \<leftarrow> get p ''url'';
          x \<leftarrow> clamped p ''x'' (Fin 430) (Fin 0) (Fin 640);
          y \<leftarrow> clamped p ''y'' (Fin 140) (Fin 0) (Fin 400);
          width \<leftarrow> clamped p ''width'' (Fin 180) (Fin 40) (Fin 640);
          height \<leftarrow> clamped p ''height'' (Fin 180) (Fin 40) (Fin 400);
          loop \<leftarrow> get p ''loop'';
          Some (Some (Lottie lid
            \<lparr>lottie_url = string_or url ''/animations/dna.json'',
             lottie_x = x, lottie_y = y, lottie_width = width, lottie_height = height,
             lottie_loop = truthy (if nullish loop then JBool True else loop)\<rparr>
            []))
        } else Some None)"

text \<open>The scene installed when no layer is left (the end of its animation is computed).\<close>

definition default_layers :: "jsnum \<Rightarrow> layer list" where
  "default_layers duration =
     [Circle (JStr ''ball'')
        \<lparr>circle_x = Fin 120, circle_y = Fin 220, circle_r = Fin 18,
         circle_fill = Some ''#3498db''\<rparr>
        [Linear ''x'' (Fin 120) (Fin 520) (Some (Fin 0)) (Some (jsub duration (Fin 1000)))],
      Arrow (JStr ''arrow'')
        \<lparr>arrow_x = Fin 90, arrow_y = Fin 220, arrow_dx = Fin 40, arrow_dy = Fin 0,
         arrow_color = Some ''#e74c3c''\<rparr>
        []]"

text \<open>
  The text used when the answer has none; its apostrophe is U+2019, three bytes in
  UTF-8.
\<close>

definition fallback_text :: string where
  "fallback_text =
     ''Here'' @ [CHR 0xE2, CHR 0x80, CHR 0x99]
       @ ''s a concise explanation with a simple visualization.''"

text \<open>
  The parts of \<^verbatim>\<open>sanitizeAnswer\<close>: the text (trimmed, or the fallback), the visualisation
  object (\<^verbatim>\<open>ans?.visualization || {}\<close>), its layer entries (an array, or none), and the
  entries mapped with their indices and filtered (\<^verbatim>\<open>layers.map(...).filter(Boolean)\<close>).
\<close>

definition text_of :: "jsval \<Rightarrow> string" where
  "text_of ans =
     (case getq ans ''text'' of
        JStr s \<Rightarrow> if trim s \<noteq> [] then trim s else fallback_text
      | _ \<Rightarrow> fallback_text)"

definition vis_of :: "jsval \<Rightarrow> jsval" where
  "vis_of ans =
     (if truthy (getq ans ''visualization'') then getq ans ''visualization'' else JObj [])"

definition entries_of :: "jsval \<Rightarrow> jsval list" where
  "entries_of ls = (case ls of JArr es \<Rightarrow> es | _ \<Rightarrow> [])"

definition sanitize_layers :: "jsnum \<Rightarrow> jsval list \<Rightarrow> layer list option" where
  "sanitize_layers duration es =
     map_option (List.map_filter (\<lambda>l. l))
       (those (map (\<lambda>(i, l). sanitize_layer duration l i) (enumerate 0 es)))"

definition sanitizeAnswer :: "jsval \<Rightarrow> answer option" where
  "sanitizeAnswer ans = do {
     duration \<leftarrow> clamped (vis_of ans) ''duration'' (Fin 5000) (Fin 1000) (Fin 10000);
     fps \<leftarrow> clamped (vis_of ans) ''fps'' (Fin 30) (Fin 1) (Fin 60);
     ls \<leftarrow> get (vis_of ans) ''layers'';
     layers \<leftarrow> sanitize_layers duration (entries_of ls);
     vid \<leftarrow> get (vis_of ans) ''id'';
     Some \<lparr>ans_text = text_of ans,
           ans_visualization =
             \<lparr>vis_id = (if truthy vid then vid else JStr ''vis_safe''),
              vis_duration = duration, vis_fps = fps,
              vis_layers = (if layers = [] then default_layers duration else layers)\<rparr>\<rparr>
   }"

text \<open>
  The object that \<^verbatim>\<open>sanitizeAnswer\<close> returns, as a value again, property by property
  in the order of its object literals: what a second call of the sanitizer is given.
\<close>

definition opt_num :: "string \<Rightarrow> jsnum option \<Rightarrow> (string \<times> jsval) list" where
  "opt_num k v = (case v of Some n \<Rightarrow> [(k, JNum n)] | None \<Rightarrow> [])"

definition opt_str :: "string \<Rightarrow> string option \<Rightarrow> (string \<times> jsval) list" where
  "opt_str k v = (case v of Some s \<Rightarrow> [(k, JStr s)] | None \<Rightarrow> [])"

fun anim_to_js :: "anim \<Rightarrow> jsval" where
  "anim_to_js (Linear property from to start end) =
     JObj ([(''property'', JStr property), (''from'', JNum from), (''to'', JNum to)]
           @ opt_num ''start'' start @ opt_num ''end'' end)"
| "anim_to_js (Orbit centerX centerY radius duration) =
     JObj ([(''property'', JStr ''orbit''), (''centerX'', JNum centerX),
            (''centerY'', JNum centerY), (''radius'', JNum radius)]
           @ opt_num ''duration'' duration)"

fun layer_to_js :: "layer \<Rightarrow> jsval" where
  "layer_to_js (Circle lid p animations) =
     JObj [(''id'', lid), (''type'', JStr ''circle''),
           (''props'', JObj ([(''x'', JNum (circle_x p)), (''y'', JNum (circle_y p)),
                              (''r'', JNum (circle_r p))] @ opt_str ''fill'' (circle_fill p))),
           (''animations'', JArr (map anim_to_js animations))]"
| "layer_to_js (Arrow lid p animations) =
     JObj [(''id'', lid), (''type'', JStr ''arrow''),
           (''props'', JObj ([(''x'', JNum (arrow_x p)), (''y'', JNum (arrow_y p)),
                              (''dx'', JNum (arrow_dx p)), (''dy'', JNum (arrow_dy p))]
                             @ opt_str ''color'' (arrow_color p))),
           (''animations'', JArr (map anim_to_js animations))]"
| "layer_to_js (Lottie lid p animations) =
     JObj [(''id'', lid), (''type'', JStr ''lottie''),
           (''props'', JObj [(''url'', JStr (lottie_url p)), (''x'', JNum (lottie_x p)),
                             (''y'', JNum (lottie_y p)), (''width'', JNum (lottie_width p)),
                             (''height'', JNum (lottie_height p)),
                             (''loop'', JBool (lottie_loop p))]),
           (''animations'', JArr (map anim_to_js animations))]"

definition vis_to_js :: "vis_spec \<Rightarrow> jsval" where
  "vis_to_js v =
     JObj [(''id'', vis_id v), (''duration'', JNum (vis_duration v)),
           (''fps'', JNum (vis_fps v)), (''layers'', JArr (map layer_to_js (vis_layers v)))]"

definition answer_to_js :: "answer \<Rightarrow> jsval" where
  "answer_to_js a =
     JObj [(''text'', JStr (ans_text a)), (''visualization'', vis_to_js (ans_visualization a))]"

section \<open>Reading the model's reply\<close>

subsection \<open>JSON.parse\<close>











subsection \<open>extractJSON and the retry of askOllama\<close>







section \<open>The evaluator\<close>

text \<open>
  The body of \<^verbatim>\<open>draw\<close> in \<^verbatim>\<open>App.tsx\<close>: what is drawn for a specification at an elapsed
  time (\<^verbatim>\<open>now - startTime\<close>). The result lists the shapes handed to the canvas, in
  order: a filled circle (\<^verbatim>\<open>arc\<close> at \<open>x\<close>, \<open>y\<close> with radius \<open>r\<close> in a fill style), or an
  arrow (the segment from \<open>x\<close>, \<open>y\<close> by \<open>dx\<close>, \<open>dy\<close> with its head, in a colour).
\<close>

datatype render =
    DrawCircle jsnum jsnum jsnum string
  | DrawArrow jsnum jsnum jsnum jsnum string

text \<open>\<^verbatim>\<open>v || d\<close> on an optional number, \<^verbatim>\<open>v ?? d\<close>, and \<^verbatim>\<open>s || d\<close> on an optional string.\<close>

definition num_or :: "jsnum option \<Rightarrow> jsnum \<Rightarrow> jsnum" where
  "num_or v d = (case v of Some n \<Rightarrow> if num_truthy n then n else d | None \<Rightarrow> d)"

definition num_nullish_or :: "jsnum option \<Rightarrow> jsnum \<Rightarrow> jsnum" where
  "num_nullish_or v d = (case v of Some n \<Rightarrow> n | None \<Rightarrow> d)"

definition str_or :: "string option \<Rightarrow> string \<Rightarrow> string" where
  "str_or v d = (case v of Some s \<Rightarrow> if s \<noteq> [] then s else d | None \<Rightarrow> d)"

text \<open>The period an orbit runs with (\<^verbatim>\<open>a.duration || dur\<close>).\<close>

definition orbitDur :: "jsnum option \<Rightarrow> jsnum \<Rightarrow> jsnum" where
  "orbitDur duration dur = num_or duration dur"

text \<open>The phase of an orbit at time \<open>t\<close> (\<^verbatim>\<open>((t % orbitDur) / orbitDur) || 0\<close>).\<close>

definition orbit_phase :: "jsnum \<Rightarrow> jsnum \<Rightarrow> jsnum" where
  "orbit_phase t period = num_or (Some (jdiv (jmod t period) period)) (Fin 0)"

text \<open>The value of a linear animation at time \<open>t\<close>.\<close>

definition linear_value ::
  "jsnum \<Rightarrow> jsnum \<Rightarrow> jsnum \<Rightarrow> jsnum \<Rightarrow> jsnum option \<Rightarrow> jsnum option \<Rightarrow> jsnum" where
  "linear_value dur t from to start end =
     (let s = num_nullish_or start (Fin 0);
          e = num_nullish_or end dur;
          span = Math_max (jsub e s) (Fin 1);
          prog = Math_min (Math_max (jdiv (jsub t s) span) (Fin 0)) (Fin 1)
      in jadd from (jmul (jsub to from) prog))"

text \<open>One turn of the loop over a circle's animations, on the variables \<open>x\<close>, \<open>y\<close>, \<open>r\<close>.\<close>

fun apply_anim :: "jsnum \<Rightarrow> jsnum \<Rightarrow> jsnum \<times> jsnum \<times> jsnum \<Rightarrow> anim \<Rightarrow> jsnum \<times> jsnum \<times> jsnum" where
  "apply_anim dur t (x, y, r) (Orbit centerX centerY radius duration) =
     (let p = orbit_phase t (orbitDur duration dur);
          ang = jmul (jmul p (Fin pi)) (Fin 2)
      in (jadd centerX (jmul radius (jcos ang)), jadd centerY (jmul radius (jsin ang)), r))"
| "apply_anim dur t (x, y, r) (Linear property from to start end) =
     (let val = linear_value dur t from to start end
      in (if property = ''x'' then val else x,
          if property = ''y'' then val else y,
          if property = ''r'' then val else r))"

text \<open>What one layer draws; a layer that is neither a circle nor an arrow draws nothing.\<close>

fun draw_layer :: "jsnum \<Rightarrow> jsnum \<Rightarrow> layer \<Rightarrow> render list" where
  "draw_layer dur t (Circle lid p animations) =
     (case foldl (apply_anim dur t) (circle_x p, circle_y p, circle_r p) animations of
        (x, y, r) \<Rightarrow> [DrawCircle x y r (str_or (circle_fill p) ''#3498db'')])"
| "draw_layer dur t (Arrow lid p animations) =
     [DrawArrow (arrow_x p) (arrow_y p) (arrow_dx p) (arrow_dy p)
        (str_or (arrow_color p) ''#e74c3c'')]"
| "draw_layer dur t (Lottie lid p animations) = []"

definition draw :: "vis_spec \<Rightarrow> jsnum \<Rightarrow> render list" where
  "draw spec elapsed =
     (let dur = num_or (Some (vis_duration spec)) (Fin 4000);
          t = Math_min elapsed dur
      in concat (map (draw_layer dur t) (vis_layers spec)))"

section \<open>The invariants of the data model\<close>

text \<open>
  What the specification asks of a canonical visualisation: a number within bounds is a
  finite one; a linear animation runs in a window of at least 100 ms inside the
  duration; an orbit has its centre on the canvas, a radius from 10 to 250 and a period
  from 500 to 10000.
\<close>

definition in_range :: "real \<Rightarrow> real \<Rightarrow> jsnum \<Rightarrow> bool" where
  "in_range lo hi n = (case n of Fin v \<Rightarrow> lo \<le> v \<and> v \<le> hi | _ \<Rightarrow> False)"

fun window_ok :: "jsnum \<Rightarrow> jsnum option \<Rightarrow> jsnum option \<Rightarrow> bool" where
  "window_ok (Fin d) (Some (Fin s)) (Some (Fin e)) = (0 \<le> s \<and> s + 100 \<le> e \<and> e \<le> d)"
| "window_ok d s e = False"

fun anim_ok :: "jsnum \<Rightarrow> anim \<Rightarrow> bool" where
  "anim_ok duration (Linear property from to start end) =
     (property \<in> set [''x'', ''y'', ''r''] \<and> isFinite from \<and> isFinite to
      \<and> window_ok duration start end)"
| "anim_ok duration (Orbit centerX centerY radius period) =
     (in_range 0 640 centerX \<and> in_range 0 400 centerY \<and> in_range 10 250 radius
      \<and> (case period of Some n \<Rightarrow> in_range 500 10000 n | None \<Rightarrow> False))"

fun layer_ok :: "jsnum \<Rightarrow> layer \<Rightarrow> bool" where
  "layer_ok duration (Circle lid p animations) =
     (truthy lid \<and> in_range 0 640 (circle_x p) \<and> in_range 0 400 (circle_y p)
      \<and> in_range 1 120 (circle_r p) \<and> circle_fill p \<noteq> None
      \<and> list_all (anim_ok duration) animations)"
| "layer_ok duration (Arrow lid p animations) =
     (truthy lid \<and> in_range 0 640 (arrow_x p) \<and> in_range 0 400 (arrow_y p)
      \<and> in_range (- 640) 640 (arrow_dx p) \<and> in_range (- 400) 400 (arrow_dy p)
      \<and> arrow_color p \<noteq> None \<and> animations = [])"
| "layer_ok duration (Lottie lid p animations) =
     (truthy lid \<and> in_range 0 640 (lottie_x p) \<and> in_range 0 400 (lottie_y p)
      \<and> in_range 40 640 (lottie_width p) \<and> in_range 40 400 (lottie_height p)
      \<and> animations = [])"

definition spec_ok :: "vis_spec \<Rightarrow> bool" where
  "spec_ok v =
     (truthy (vis_id v) \<and> in_range 1000 10000 (vis_duration v) \<and> in_range 1 60 (vis_fps v)
      \<and> vis_layers v \<noteq> [] \<and> list_all (layer_ok (vis_duration v)) (vis_layers v))"

text \<open>The numeric fields of a visualisation, where present.\<close>

definition opt_nums :: "jsnum option \<Rightarrow> jsnum list" where
  "opt_nums v = (case v of Some n \<Rightarrow> [n] | None \<Rightarrow> [])"

fun anim_nums :: "anim \<Rightarrow> jsnum list" where
  "anim_nums (Linear property from to start end) = [from, to] @ opt_nums start @ opt_nums end"
| "anim_nums (Orbit centerX centerY radius period) =
     [centerX, centerY, radius] @ opt_nums period"

fun layer_nums :: "layer \<Rightarrow> jsnum list" where
  "layer_nums (Circle lid p animations) =
     [circle_x p, circle_y p, circle_r p] @ concat (map anim_nums animations)"
| "layer_nums (Arrow lid p animations) =
     [arrow_x p, arrow_y p, arrow_dx p, arrow_dy p] @ concat (map anim_nums animations)"
| "layer_nums (Lottie lid p animations) =
     [lottie_x p, lottie_y p, lottie_width p, lottie_height p]
     @ concat (map anim_nums animations)"

definition vis_nums :: "vis_spec \<Rightarrow> jsnum list" where
  "vis_nums v = [vis_duration v, vis_fps v] @ concat (map layer_nums (vis_layers v))"







text \<open>The identifier of a layer.\<close>

fun layer_id :: "layer \<Rightarrow> jsval" where
  "layer_id (Circle lid p animations) = lid"
| "layer_id (Arrow lid p animations) = lid"
| "layer_id (Lottie lid p animations) = lid"

text \<open>
  An answer as the sanitizer returns it outside the default scene of a short duration: a
  trimmed, non-empty text and a visualisation that satisfies the invariants.
\<close>

definition canonical :: "answer \<Rightarrow> bool" where
  "canonical a =
     (ans_text a \<noteq> [] \<and> trim (ans_text a) = ans_text a \<and> spec_ok (ans_visualization a))"

text \<open>
  A value none of whose objects, at any depth, has a \<^verbatim>\<open>toString\<close> property of its own:
  its conversion to a number does not raise.
\<close>

fun plain :: "jsval \<Rightarrow> bool" where
  "plain (JObj kvs) = (''toString'' \<notin> set (map fst kvs) \<and> list_all plain (map snd kvs))"
| "plain (JArr es) = list_all plain es"
| "plain v = True"

text \<open>The sanitizer applied to its own result.\<close>

definition sanitize_twice :: "jsval \<Rightarrow> answer option" where
  "sanitize_twice v =
     (case sanitizeAnswer v of None \<Rightarrow> None | Some a \<Rightarrow> sanitizeAnswer (answer_to_js a))"

section \<open>Inputs of the scenarios\<close>

text \<open>An answer that asks for the shortest duration and has no layers.\<close>

definition short_input :: jsval where
  "short_input = JObj [(''visualization'', JObj [(''duration'', JNum (Fin 1000))])]"


definition scenario_object :: jsval where
  "scenario_object =
     JObj [(''text'', JStr ''ok''),
           (''visualization'',
            JObj [(''duration'', JNum (Fin 20000)),
                  (''layers'',
                   JArr [JObj [(''type'', JStr ''circle''),
                               (''props'', JObj [(''x'', JNum (Fin (- 10))),
                                                 (''r'', JNum (Fin 0))])]])])]"



text \<open>
  Two answers of \<^verbatim>\<open>mockAnswer\<close>: for a question about the solar system (an orbit) and for
  one about DNA (a Lottie layer and a circle).
\<close>

definition mock_solar :: jsval where
  "mock_solar =
     JObj [(''text'', JStr ''The Sun is at the center; planets orbit due to gravity.''),
           (''visualization'',
            JObj [(''id'', JStr ''vis_solar''), (''duration'', JNum (Fin 6000)),
                  (''fps'', JNum (Fin 30)),
                  (''layers'',
                   JArr [JObj [(''id'', JStr ''sun''), (''type'', JStr ''circle''),
                               (''props'', JObj [(''x'', JNum (Fin 320)), (''y'', JNum (Fin 200)),
                                                 (''r'', JNum (Fin 40)),
                                                 (''fill'', JStr ''#f39c12'')]),
                               (''animations'', JArr [])],
                         JObj [(''id'', JStr ''earth''), (''type'', JStr ''circle''),
                               (''props'', JObj [(''x'', JNum (Fin 220)), (''y'', JNum (Fin 200)),
                                                 (''r'', JNum (Fin 12)),
                                                 (''fill'', JStr ''#3498db'')]),
                               (''animations'',
                                JArr [JObj [(''property'', JStr ''orbit''),
                                            (''centerX'', JNum (Fin 320)),
                                            (''centerY'', JNum (Fin 200)),
                                            (''radius'', JNum (Fin 100)),
                                            (''duration'', JNum (Fin 6000))]])]])])]"


text \<open>What the sanitizer returns for them.\<close>

definition solar_spec :: vis_spec where
  "solar_spec =
     \<lparr>vis_id = JStr ''vis_solar'', vis_duration = Fin 6000, vis_fps = Fin 30,
      vis_layers =
        [Circle (JStr ''sun'')
           \<lparr>circle_x = Fin 320, circle_y = Fin 200, circle_r = Fin 40,
            circle_fill = Some ''#f39c12''\<rparr>
           [],
         Circle (JStr ''earth'')
           \<lparr>circle_x = Fin 220, circle_y = Fin 200, circle_r = Fin 12,
            circle_fill = Some ''#3498db''\<rparr>
           [Orbit (Fin 320) (Fin 200) (Fin 100) (Some (Fin 6000))]]\<rparr>"


text \<open>
  A one-layer visualisation: a circle with the given animations, in a specification of
  the given duration.
\<close>

definition one_circle :: "real \<Rightarrow> anim list \<Rightarrow> vis_spec" where
  "one_circle d animations =
     \<lparr>vis_id = JStr ''vis_safe'', vis_duration = Fin d, vis_fps = Fin 30,
      vis_layers =
        [Circle (JStr ''layer_0'')
           \<lparr>circle_x = Fin 160, circle_y = Fin 200, circle_r = Fin 16,
            circle_fill = Some ''#3498db''\<rparr>
           animations]\<rparr>"

text \<open>
  Answers with one circle layer: an orbit of period 4000 in a visualisation of duration
  1000; a linear animation whose \<^verbatim>\<open>from\<close> is not a number and whose \<^verbatim>\<open>to\<close> is \<^verbatim>\<open>null\<close>, on a
  circle whose \<^verbatim>\<open>x\<close> is \<^verbatim>\<open>null\<close>.
\<close>

definition orbit_answer :: jsval where
  "orbit_answer =
     JObj [(''visualization'',
            JObj [(''duration'', JNum (Fin 1000)),
                  (''layers'',
                   JArr [JObj [(''type'', JStr ''circle''),
                               (''animations'',
                                JArr [JObj [(''property'', JStr ''orbit''),
                                            (''centerX'', JNum (Fin 320)),
                                            (''centerY'', JNum (Fin 200)),
                                            (''radius'', JNum (Fin 100)),
                                            (''duration'', JNum (Fin 4000))]])]])])]"

definition coerced_answer :: jsval where
  "coerced_answer =
     JObj [(''visualization'',
            JObj [(''layers'',
                   JArr [JObj [(''type'', JStr ''circle''),
                               (''props'', JObj [(''x'', JNull)]),
                               (''animations'',
                                JArr [JObj [(''from'', JStr ''abc''), (''to'', JNull)]])]])])]"

text \<open>An answer with two layers of the same identifier.\<close>

definition twin_answer :: jsval where
  "twin_answer =
     JObj [(''visualization'',
            JObj [(''layers'',
                   JArr [JObj [(''id'', JStr ''a''), (''type'', JStr ''circle'')],
                         JObj [(''id'', JStr ''a''), (''type'', JStr ''arrow'')]])])]"


text \<open>An answer whose duration is an object with a \<^verbatim>\<open>toString\<close> property of its own.\<close>

definition raising_answer :: jsval where
  "raising_answer =
     JObj [(''visualization'',
            JObj [(''duration'', JObj [(''toString'', JNum (Fin 1))])])]"


section \<open>Evaluation rules\<close>

lemmas value_defs =
  getq_def get_def nullish_def num_truthy_def isFinite_def clamp_def jsub_def
  Number_def safeNumber_def clamped_def string_or_def props_of_def

lemmas sanitizer_defs =
  value_defs sanitizeAnswer_def text_of_def vis_of_def entries_of_def sanitize_layers_def
  sanitize_layer_def sanitize_anim_def default_layers_def fallback_text_def trim_def is_ws_def
  enumerate_eq_zip List.map_filter_simps

lemmas to_js_defs = answer_to_js_def vis_to_js_def opt_num_def opt_str_def






section \<open>What the sanitizer guarantees\<close>

lemma safeNumber_cases:
  "safeNumber v (Fin d) = Some n \<Longrightarrow> n = (case ToNumber v of Fin r \<Rightarrow> Fin r | _ \<Rightarrow> Fin d)"
  by (cases "ToNumber v") (auto simp: safeNumber_def Number_def isFinite_def split: if_splits)

lemma safeNumber_finite: "safeNumber v (Fin d) = Some n \<Longrightarrow> \<exists>r. n = Fin r"
  by (drule safeNumber_cases) (simp split: jsnum.splits)

lemma clamp_Fin: "clamp (Fin n) (Fin lo) (Fin hi) = Fin (max lo (min hi n))"
  by (simp add: clamp_def)

lemma clamped_range:
  assumes "clamped p k (Fin d) (Fin lo) (Fin hi) = Some n" and "lo \<le> hi"
  shows "in_range lo hi n"
proof -
  from assms(1) obtain v m where "safeNumber v (Fin d) = Some m" and n: "n = clamp m (Fin lo) (Fin hi)"
    by (auto simp: clamped_def bind_eq_Some_conv)
  then obtain r where "m = Fin r" using safeNumber_finite by blast
  with n assms(2) show ?thesis by (simp add: clamp_Fin in_range_def)
qed

lemma sanitize_anim_ok:
  assumes "sanitize_anim (Fin d) a = Some an" and "1000 \<le> d"
  shows "anim_ok (Fin d) an"
proof (cases "getq a ''property'' = JStr ''orbit''")
  case True
  with assms(1) obtain cx cy rad per where
    cx: "clamped a ''centerX'' (Fin 320) (Fin 0) (Fin 640) = Some cx" and
    cy: "clamped a ''centerY'' (Fin 200) (Fin 0) (Fin 400) = Some cy" and
    rad: "clamped a ''radius'' (Fin 100) (Fin 10) (Fin 250) = Some rad" and
    per: "clamped a ''duration'' (Fin d) (Fin 500) (Fin 10000) = Some per" and
    an: "an = Orbit cx cy rad (Some per)"
    by (auto simp: sanitize_anim_def bind_eq_Some_conv)
  show ?thesis
    using clamped_range[OF cx] clamped_range[OF cy] clamped_range[OF rad] clamped_range[OF per]
    by (simp add: an)
next
  case False
  with assms(1) obtain s e f t where
    s: "safeNumber (getq a ''start'') (Fin 0) = Some s" and
    e: "safeNumber (getq a ''end'') (Fin d) = Some e" and
    f: "safeNumber (getq a ''from'') (Fin 100) = Some f" and
    t: "safeNumber (getq a ''to'') (Fin 500) = Some t" and
    an: "an = Linear
          (if getq a ''property'' = JStr ''y'' then ''y''
           else if getq a ''property'' = JStr ''r'' then ''r'' else ''x'')
          f t (Some (clamp s (Fin 0) (jsub (Fin d) (Fin 100))))
          (Some (clamp e (jadd (clamp s (Fin 0) (jsub (Fin d) (Fin 100))) (Fin 100)) (Fin d)))"
    by (auto simp: sanitize_anim_def bind_eq_Some_conv Let_def)
  from s e f t obtain s' e' f' t' where "s = Fin s'" "e = Fin e'" "f = Fin f'" "t = Fin t'"
    using safeNumber_finite by metis
  with assms(2) show ?thesis
    by (simp add: an clamp_Fin jsub_def isFinite_def)
qed

lemma those_eq_Some: "those zs = Some ys \<longleftrightarrow> zs = map Some ys"
proof (induction zs arbitrary: ys)
  case Nil
  then show ?case by auto
next
  case (Cons z zs)
  show ?case
  proof (cases z)
    case None
    then show ?thesis by auto
  next
    case (Some a)
    have "those (z # zs) = Some ys \<longleftrightarrow> (\<exists>ys'. those zs = Some ys' \<and> ys = a # ys')"
      using Some by (auto simp: map_option_case split: option.splits)
    also have "\<dots> \<longleftrightarrow> (\<exists>ys'. zs = map Some ys' \<and> ys = a # ys')"
      by (simp add: Cons.IH)
    also have "\<dots> \<longleftrightarrow> z # zs = map Some ys"
      using Some by (cases ys) auto
    finally show ?thesis .
  qed
qed

lemma those_map_all:
  assumes "those (map f xs) = Some ys" and "\<forall>x y. x \<in> set xs \<longrightarrow> f x = Some y \<longrightarrow> P y"
  shows "list_all P ys"
proof -
  from assms(1) have eq: "map f xs = map Some ys" by (simp add: those_eq_Some)
  have "P y" if "y \<in> set ys" for y
  proof -
    from that have "Some y \<in> set (map f xs)" by (simp add: eq)
    then obtain x where "x \<in> set xs" "f x = Some y" by auto
    with assms(2) show ?thesis by blast
  qed
  then show ?thesis by (simp add: list_all_iff)
qed

lemma props_of_truthy: "props_of l = Some p \<Longrightarrow> truthy p"
  by (auto simp: props_of_def bind_eq_Some_conv split: if_splits)

lemma layer_id_truthy:
  "truthy (if truthy (getq l ''id'') then getq l ''id'' else JStr (''layer_'' @ nat_to_string i))"
  by simp

lemma sanitize_layer_ok:
  assumes "sanitize_layer (Fin d) l i = Some (Some ly)" and "1000 \<le> d"
  shows "layer_ok (Fin d) ly"
proof -
  consider (circle) "getq l ''type'' = JStr ''circle''"
    | (arrow) "getq l ''type'' = JStr ''arrow''"
    | (lottie) "getq l ''type'' = JStr ''lottie''"
    using assms(1) by (auto simp: sanitize_layer_def Let_def split: if_splits)
  then show ?thesis
  proof cases
    case circle
    with assms(1) obtain p x y r fill as anims where
      x: "clamped p ''x'' (Fin 160) (Fin 0) (Fin 640) = Some x" and
      y: "clamped p ''y'' (Fin 200) (Fin 0) (Fin 400) = Some y" and
      r: "clamped p ''r'' (Fin 16) (Fin 1) (Fin 120) = Some r" and
      anims: "(case as of JArr es \<Rightarrow> those (map (sanitize_anim (Fin d)) es) | _ \<Rightarrow> Some []) = Some anims" and
      ly: "ly = Circle (if truthy (getq l ''id'') then getq l ''id'' else JStr (''layer_'' @ nat_to_string i))
            \<lparr>circle_x = x, circle_y = y, circle_r = r, circle_fill = Some (string_or fill ''#3498db'')\<rparr> anims"
      by (auto simp: sanitize_layer_def Let_def bind_eq_Some_conv)
    have "list_all (anim_ok (Fin d)) anims"
    proof (cases as)
      case (JArr es)
      with anims have "those (map (sanitize_anim (Fin d)) es) = Some anims" by simp
      then show ?thesis
        by (rule those_map_all) (use assms(2) sanitize_anim_ok in blast)
    qed (use anims in auto)
    then show ?thesis
      using clamped_range[OF x] clamped_range[OF y] clamped_range[OF r]
      by (simp add: ly)
  next
    case arrow
    with assms(1) obtain p x y dx dy color where
      x: "clamped p ''x'' (Fin 90) (Fin 0) (Fin 640) = Some x" and
      y: "clamped p ''y'' (Fin 220) (Fin 0) (Fin 400) = Some y" and
      dx: "clamped p ''dx'' (Fin 40) (Fin (- 640)) (Fin 640) = Some dx" and
      dy: "clamped p ''dy'' (Fin 0) (Fin (- 400)) (Fin 400) = Some dy" and
      ly: "ly = Arrow (if truthy (getq l ''id'') then getq l ''id'' else JStr (''layer_'' @ nat_to_string i))
            \<lparr>arrow_x = x, arrow_y = y, arrow_dx = dx, arrow_dy = dy,
             arrow_color = Some (string_or color ''#e74c3c'')\<rparr> []"
      by (auto simp: sanitize_layer_def Let_def bind_eq_Some_conv)
    show ?thesis
      using clamped_range[OF x] clamped_range[OF y] clamped_range[OF dx] clamped_range[OF dy]
      by (simp add: ly)
  next
    case lottie
    with assms(1) obtain p url x y w h loop where
      x: "clamped p ''x'' (Fin 430) (Fin 0) (Fin 640) = Some x" and
      y: "clamped p ''y'' (Fin 140) (Fin 0) (Fin 400) = Some y" and
      w: "clamped p ''width'' (Fin 180) (Fin 40) (Fin 640) = Some w" and
      h: "clamped p ''height'' (Fin 180) (Fin 40) (Fin 400) = Some h" and
      ly: "ly = Lottie (if truthy (getq l ''id'') then getq l ''id'' else JStr (''layer_'' @ nat_to_string i))
            \<lparr>lottie_url = string_or url ''/animations/dna.json'',
             lottie_x = x, lottie_y = y, lottie_width = w, lottie_height = h,
             lottie_loop = truthy (if nullish loop then JBool True else loop)\<rparr> []"
      by (auto simp: sanitize_layer_def Let_def bind_eq_Some_conv)
    show ?thesis
      using clamped_range[OF x] clamped_range[OF y] clamped_range[OF w] clamped_range[OF h]
      by (simp add: ly)
  qed
qed

lemma vis_of_get: "get (vis_of ans) k = Some (lookup (vis_of ans) k)"
  by (auto simp: vis_of_def get_def nullish_def)

lemma sanitizeAnswer_Some:
  assumes "sanitizeAnswer ans = Some a"
  obtains duration fps layers where
    "clamped (vis_of ans) ''duration'' (Fin 5000) (Fin 1000) (Fin 10000) = Some duration"
    "clamped (vis_of ans) ''fps'' (Fin 30) (Fin 1) (Fin 60) = Some fps"
    "sanitize_layers duration (entries_of (lookup (vis_of ans) ''layers'')) = Some layers"
    "a = \<lparr>ans_text = text_of ans,
          ans_visualization =
            \<lparr>vis_id = (if truthy (lookup (vis_of ans) ''id'') then lookup (vis_of ans) ''id''
                       else JStr ''vis_safe''),
             vis_duration = duration, vis_fps = fps,
             vis_layers = (if layers = [] then default_layers duration else layers)\<rparr>\<rparr>"
  using assms by (auto simp: sanitizeAnswer_def bind_eq_Some_conv vis_of_get)

lemma sanitize_layers_ok:
  assumes "sanitize_layers (Fin d) es = Some ls" and "1000 \<le> d"
  shows "list_all (layer_ok (Fin d)) ls"
proof -
  from assms(1) obtain mapped where
    m: "those (map (\<lambda>(i, l). sanitize_layer (Fin d) l i) (enumerate 0 es)) = Some mapped" and
    ls: "ls = List.map_filter (\<lambda>l. l) mapped"
    by (auto simp: sanitize_layers_def)
  from m have "list_all (\<lambda>r. \<forall>ly. r = Some ly \<longrightarrow> layer_ok (Fin d) ly) mapped"
    by (rule those_map_all) (use assms(2) sanitize_layer_ok in auto)
  then show ?thesis
    by (auto simp: ls list_all_iff List.map_filter_def)
qed

lemma sanitize_fields:
  assumes "sanitizeAnswer ans = Some a"
  obtains d f where
    "vis_duration (ans_visualization a) = Fin d" "1000 \<le> d" "d \<le> 10000"
    "vis_fps (ans_visualization a) = Fin f" "1 \<le> f" "f \<le> 60"
    "truthy (vis_id (ans_visualization a))"
    "vis_layers (ans_visualization a) \<noteq> []"
    "vis_layers (ans_visualization a) = default_layers (Fin d)
     \<or> list_all (layer_ok (Fin d)) (vis_layers (ans_visualization a))"
proof -
  from assms obtain duration fps layers where
    du: "clamped (vis_of ans) ''duration'' (Fin 5000) (Fin 1000) (Fin 10000) = Some duration" and
    fp: "clamped (vis_of ans) ''fps'' (Fin 30) (Fin 1) (Fin 60) = Some fps" and
    ls: "sanitize_layers duration (entries_of (lookup (vis_of ans) ''layers'')) = Some layers" and
    a: "a = \<lparr>ans_text = text_of ans,
          ans_visualization =
            \<lparr>vis_id = (if truthy (lookup (vis_of ans) ''id'') then lookup (vis_of ans) ''id''
                       else JStr ''vis_safe''),
             vis_duration = duration, vis_fps = fps,
             vis_layers = (if layers = [] then default_layers duration else layers)\<rparr>\<rparr>"
    by (rule sanitizeAnswer_Some)
  from clamped_range[OF du] obtain d where d: "duration = Fin d" "1000 \<le> d" "d \<le> 10000"
    by (auto simp: in_range_def split: jsnum.splits)
  from clamped_range[OF fp] obtain f where f: "fps = Fin f" "1 \<le> f" "f \<le> 60"
    by (auto simp: in_range_def split: jsnum.splits)
  have "list_all (layer_ok (Fin d)) layers"
    using sanitize_layers_ok ls d by blast
  with d f show ?thesis
    by (intro that[of d f]) (auto simp: a default_layers_def)
qed

lemma in_range_finite: "in_range lo hi n \<Longrightarrow> isFinite n"
  by (cases n) (simp_all add: in_range_def isFinite_def)

lemma anim_ok_finite: "anim_ok (Fin d) a \<Longrightarrow> list_all isFinite (anim_nums a)"
proof (cases a)
  case (Linear p f t s e)
  assume "anim_ok (Fin d) a"
  with Linear show ?thesis
    by (cases s; cases e) (auto simp: opt_nums_def isFinite_def elim!: window_ok.elims)
next
  case (Orbit cx cy rad per)
  assume "anim_ok (Fin d) a"
  with Orbit show ?thesis
    by (cases per) (auto simp: opt_nums_def in_range_finite)
qed

lemma layer_ok_finite: "layer_ok (Fin d) ly \<Longrightarrow> list_all isFinite (layer_nums ly)"
  by (cases ly) (auto simp: in_range_finite list_all_iff dest: anim_ok_finite[unfolded list_all_iff])

lemma default_layers_finite: "list_all isFinite (concat (map layer_nums (default_layers (Fin d))))"
  by (simp add: default_layers_def jsub_def isFinite_def opt_nums_def)

lemma sanitize_finite:
  assumes "sanitizeAnswer ans = Some a"
  shows "list_all isFinite (vis_nums (ans_visualization a))"
proof -
  from assms obtain d f where
    d: "vis_duration (ans_visualization a) = Fin d" and
    f: "vis_fps (ans_visualization a) = Fin f" and
    l: "vis_layers (ans_visualization a) = default_layers (Fin d)
     \<or> list_all (layer_ok (Fin d)) (vis_layers (ans_visualization a))"
    by (rule sanitize_fields)
  from l have "list_all isFinite (concat (map layer_nums (vis_layers (ans_visualization a))))"
  proof
    assume "vis_layers (ans_visualization a) = default_layers (Fin d)"
    then show ?thesis by (simp only: default_layers_finite)
  next
    assume "list_all (layer_ok (Fin d)) (vis_layers (ans_visualization a))"
    then show ?thesis
      using layer_ok_finite by (fastforce simp: list_all_iff)
  qed
  with d f show ?thesis by (simp add: vis_nums_def isFinite_def)
qed

section \<open>The sanitizer on the shortest duration\<close>

text \<open>
  C1. The sanitizer should return a visualisation that satisfies every invariant of the
  data model, also when it installs the default scene. For an answer with duration 1000
  and no layers the default scene's animation gets the window from 0 to
  \<open>duration - 1000 = 0\<close>, shorter than the 100 ms the invariant asks for, so the result
  is not a canonical visualisation.
\<close>

theorem sanitize_short_default_scene:
  "map_option ans_visualization (sanitizeAnswer short_input) =
     Some \<lparr>vis_id = JStr ''vis_safe'', vis_duration = Fin 1000, vis_fps = Fin 30,
           vis_layers =
             [Circle (JStr ''ball'')
                \<lparr>circle_x = Fin 120, circle_y = Fin 220, circle_r = Fin 18,
                 circle_fill = Some ''#3498db''\<rparr>
                [Linear ''x'' (Fin 120) (Fin 520) (Some (Fin 0)) (Some (Fin 0))],
              Arrow (JStr ''arrow'')
                \<lparr>arrow_x = Fin 90, arrow_y = Fin 220, arrow_dx = Fin 40, arrow_dy = Fin 0,
                 arrow_color = Some ''#e74c3c''\<rparr>
                []]\<rparr>
   \<and> map_option (spec_ok \<circ> ans_visualization) (sanitizeAnswer short_input) = Some False"
  by (simp add: short_input_def sanitizer_defs spec_ok_def in_range_def)

text \<open>
  C2. The sanitizer should reproduce its own result. On the same answer the second pass
  clamps the end of the default scene's animation from 0 up to \<open>start + 100 = 100\<close>, so
  the second result differs from the first.
\<close>

theorem sanitize_twice_short_differs:
  "map_option (vis_layers \<circ> ans_visualization) (sanitize_twice short_input) =
     Some [Circle (JStr ''ball'')
             \<lparr>circle_x = Fin 120, circle_y = Fin 220, circle_r = Fin 18,
              circle_fill = Some ''#3498db''\<rparr>
             [Linear ''x'' (Fin 120) (Fin 520) (Some (Fin 0)) (Some (Fin 100))],
           Arrow (JStr ''arrow'')
             \<lparr>arrow_x = Fin 90, arrow_y = Fin 220, arrow_dx = Fin 40, arrow_dy = Fin 0,
              arrow_color = Some ''#e74c3c''\<rparr>
             []]
   \<and> sanitize_twice short_input \<noteq> sanitizeAnswer short_input"
  by (simp add: sanitize_twice_def short_input_def sanitizer_defs to_js_defs)

section \<open>The end-to-end scenario\<close>












lemma scenario_sanitized:
  "sanitizeAnswer scenario_object =
     Some \<lparr>ans_text = ''ok'',
           ans_visualization =
             \<lparr>vis_id = JStr ''vis_safe'', vis_duration = Fin 10000, vis_fps = Fin 30,
              vis_layers =
                [Circle (JStr ''layer_0'')
                   \<lparr>circle_x = Fin 0, circle_y = Fin 200, circle_r = Fin 1,
                    circle_fill = Some ''#3498db''\<rparr>
                   []]\<rparr>\<rparr>"
  by (simp add: scenario_object_def sanitizer_defs nat_to_string.simps digit_char_def)



section \<open>Layer identifiers\<close>









section \<open>The sanitizer on the examples\<close>

lemma solar_sanitized: "map_option ans_visualization (sanitizeAnswer mock_solar) = Some solar_spec"
  by (simp add: mock_solar_def solar_spec_def sanitizer_defs)


lemma orbit_sanitized:
  "map_option ans_visualization (sanitizeAnswer orbit_answer)
     = Some (one_circle 1000 [Orbit (Fin 320) (Fin 200) (Fin 100) (Some (Fin 4000))])"
  by (simp add: orbit_answer_def one_circle_def sanitizer_defs nat_to_string.simps digit_char_def)

lemma coerced_sanitized:
  "map_option ans_visualization (sanitizeAnswer coerced_answer)
     = Some \<lparr>vis_id = JStr ''vis_safe'', vis_duration = Fin 5000, vis_fps = Fin 30,
      vis_layers =
        [Circle (JStr ''layer_0'')
           \<lparr>circle_x = Fin 0, circle_y = Fin 200, circle_r = Fin 16,
            circle_fill = Some ''#3498db''\<rparr>
           [Linear ''x'' (Fin 100) (Fin 0) (Some (Fin 0)) (Some (Fin 5000))]]\<rparr>"
  by (simp add: coerced_answer_def sanitizer_defs nat_to_string.simps digit_char_def
      StringToNumber_def radix_prefix_def signed_decimal_def unsigned_decimal_def span_digits_def is_digit_def Let_def)

lemma twin_sanitized:
  "map_option (map layer_id \<circ> vis_layers \<circ> ans_visualization) (sanitizeAnswer twin_answer)
     = Some [JStr ''a'', JStr ''a'']"
  by (simp add: twin_answer_def sanitizer_defs)


section \<open>What the evaluator draws\<close>

lemmas draw_defs =
  draw_def num_or_def num_nullish_or_def str_or_def num_truthy_def orbitDur_def orbit_phase_def
  linear_value_def jsub_def trunc_def Let_def

lemma dur_of_sanitized: "d \<noteq> 0 \<Longrightarrow> num_or (Some (Fin d)) (Fin 4000) = Fin d"
  by (simp add: num_or_def num_truthy_def)

lemma draw_clamped:
  assumes "vis_duration spec = Fin d" and "0 < d" and "d \<le> t"
  shows "draw spec (Fin t) = draw spec (Fin d)"
  using assms by (simp add: draw_def dur_of_sanitized min_def Let_def)

lemma draw_circle:
  "d \<noteq> 0 \<Longrightarrow>
   draw \<lparr>vis_id = i, vis_duration = Fin d, vis_fps = f,
         vis_layers = [Circle lid p as]\<rparr> (Fin t) =
     (case foldl (apply_anim (Fin d) (Fin (min t d))) (circle_x p, circle_y p, circle_r p) as of
        (x, y, r) \<Rightarrow> [DrawCircle x y r (str_or (circle_fill p) ''#3498db'')])"
  by (simp add: draw_def dur_of_sanitized Let_def)

lemma draw_one_circle:
  "d \<noteq> 0 \<Longrightarrow> draw (one_circle d as) (Fin t) =
     (case foldl (apply_anim (Fin d) (Fin (min t d))) (Fin 160, Fin 200, Fin 16) as of
        (x, y, r) \<Rightarrow> [DrawCircle x y r ''#3498db''])"
  by (simp add: one_circle_def draw_circle str_or_def)


lemma jmod_nonneg:
  assumes "0 < P" and "0 \<le> t"
  shows "jmod (Fin t) (Fin P) = Fin (t - P * of_int \<lfloor>t / P\<rfloor>)"
  using assms by (simp add: trunc_def)

lemma jmod_period:
  assumes "0 < P" and "0 \<le> t"
  shows "jmod (Fin (t + P)) (Fin P) = jmod (Fin t) (Fin P)"
proof -
  have "(t + P) / P = t / P + 1" using assms by (simp add: field_simps)
  then have fl: "\<lfloor>(t + P) / P\<rfloor> = \<lfloor>t / P\<rfloor> + 1" by simp
  have "jmod (Fin (t + P)) (Fin P) = Fin (t + P - P * of_int \<lfloor>(t + P) / P\<rfloor>)"
    by (rule jmod_nonneg) (use assms in auto)
  also have "\<dots> = Fin (t - P * of_int \<lfloor>t / P\<rfloor>)"
    by (simp only: fl) (simp add: algebra_simps)
  also have "\<dots> = jmod (Fin t) (Fin P)"
    by (rule jmod_nonneg[symmetric]) (use assms in auto)
  finally show ?thesis .
qed

lemma orbit_phase_nonneg:
  assumes "0 < P" and "0 \<le> t"
  shows "orbit_phase (Fin t) (Fin P) = Fin ((t - P * of_int \<lfloor>t / P\<rfloor>) / P)"
proof -
  have "jdiv (jmod (Fin t) (Fin P)) (Fin P) = Fin ((t - P * of_int \<lfloor>t / P\<rfloor>) / P)"
    using assms by (simp only: jmod_nonneg[OF assms]) simp
  then show ?thesis
    by (simp only: orbit_phase_def) (simp add: num_or_def num_truthy_def)
qed

lemma orbit_phase_period:
  assumes "0 < P" and "0 \<le> t"
  shows "orbit_phase (Fin (t + P)) (Fin P) = orbit_phase (Fin t) (Fin P)"
  using assms by (simp only: orbit_phase_def jmod_period)

lemma apply_orbit_formula:
  assumes "0 < P" and "0 \<le> t"
  shows "apply_anim dur (Fin t) (x, y, r) (Orbit (Fin cx) (Fin cy) (Fin rad) (Some (Fin P)))
       = (Fin (cx + rad * cos (2 * pi * ((t - P * of_int \<lfloor>t / P\<rfloor>) / P))),
          Fin (cy + rad * sin (2 * pi * ((t - P * of_int \<lfloor>t / P\<rfloor>) / P))), r)"
proof -
  define q where "q = (t - P * of_int \<lfloor>t / P\<rfloor>) / P"
  have od: "orbitDur (Some (Fin P)) dur = Fin P"
    using assms by (simp add: orbitDur_def num_or_def num_truthy_def)
  have ph: "orbit_phase (Fin t) (Fin P) = Fin q"
    unfolding q_def by (rule orbit_phase_nonneg) (use assms in auto)
  have "apply_anim dur (Fin t) (x, y, r) (Orbit (Fin cx) (Fin cy) (Fin rad) (Some (Fin P)))
       = (Fin (cx + rad * cos (q * pi * 2)), Fin (cy + rad * sin (q * pi * 2)), r)"
    by (simp only: apply_anim.simps od ph Let_def jmul.simps jcos.simps jsin.simps jadd.simps)
  moreover have "q * pi * 2 = 2 * pi * q" by simp
  ultimately show ?thesis unfolding q_def by (simp only:)
qed

lemma apply_orbit_period:
  assumes "0 < P" and "0 \<le> t"
  shows "apply_anim dur (Fin (t + P)) st (Orbit cx cy rad (Some (Fin P)))
       = apply_anim dur (Fin t) st (Orbit cx cy rad (Some (Fin P)))"
proof -
  obtain x y r where st: "st = (x, y, r)" by (cases st) auto
  have od: "orbitDur (Some (Fin P)) dur = Fin P"
    using assms by (simp add: orbitDur_def num_or_def num_truthy_def)
  show ?thesis
    by (simp only: st apply_anim.simps od orbit_phase_period[OF assms])
qed

lemma draw_orbit_period:
  assumes "0 < P" and "0 \<le> t" and "t + P \<le> d"
  shows "draw \<lparr>vis_id = i, vis_duration = Fin d, vis_fps = f,
               vis_layers = [Circle lid p [Orbit cx cy rad (Some (Fin P))]]\<rparr> (Fin (t + P))
       = draw \<lparr>vis_id = i, vis_duration = Fin d, vis_fps = f,
               vis_layers = [Circle lid p [Orbit cx cy rad (Some (Fin P))]]\<rparr> (Fin t)"
proof -
  have d: "d \<noteq> 0" and m: "min (t + P) d = t + P" "min t d = t" using assms by auto
  show ?thesis
    unfolding draw_circle[OF d] m foldl.simps
    by (simp only: apply_orbit_period[OF assms(1,2)])
qed

lemma isFinite_iff: "isFinite n \<longleftrightarrow> (\<exists>v. n = Fin v)"
  by (cases n) (simp_all add: isFinite_def)












section \<open>Claims about layer identifiers\<close>






section \<open>Claims about the evaluator\<close>

text \<open>
  C5. For every sanitized specification and every time at or past its duration, the
  evaluator draws what it draws at the duration: the time is clamped to the duration
  before any layer, orbits included, is evaluated.
\<close>

theorem draw_holds_after_duration:
  "sanitizeAnswer ans = Some a \<Longrightarrow> vis_duration (ans_visualization a) = Fin d \<Longrightarrow> d \<le> t \<Longrightarrow>
   draw (ans_visualization a) (Fin t) = draw (ans_visualization a) (Fin d)"
proof -
  assume a: "sanitizeAnswer ans = Some a" and d: "vis_duration (ans_visualization a) = Fin d"
    and t: "d \<le> t"
  from a obtain d' where "vis_duration (ans_visualization a) = Fin d'" "1000 \<le> d'"
    by (rule sanitize_fields)
  with d have "0 < d" by simp
  with d t show ?thesis by (intro draw_clamped)
qed

theorem draw_holds_after_duration_witness:
  "\<exists>a. sanitizeAnswer mock_solar = Some a \<and> ans_visualization a = solar_spec
     \<and> vis_duration (ans_visualization a) = Fin 6000 \<and> (6000 :: real) \<le> 9000
     \<and> draw (ans_visualization a) (Fin 9000) = draw (ans_visualization a) (Fin 6000)
     \<and> draw (ans_visualization a) (Fin 9000)
         = [DrawCircle (Fin 320) (Fin 200) (Fin 40) ''#f39c12'',
            DrawCircle (Fin 420) (Fin 200) (Fin 12) ''#3498db'']"
proof -
  obtain a where a: "sanitizeAnswer mock_solar = Some a" and v: "ans_visualization a = solar_spec"
    using solar_sanitized by auto
  have d: "vis_duration (ans_visualization a) = Fin 6000" by (simp add: v solar_spec_def)
  have "draw (ans_visualization a) (Fin 9000) = draw (ans_visualization a) (Fin 6000)"
    using draw_holds_after_duration[OF a d, of 9000] by simp
  moreover have "draw solar_spec (Fin 6000)
         = [DrawCircle (Fin 320) (Fin 200) (Fin 40) ''#f39c12'',
            DrawCircle (Fin 420) (Fin 200) (Fin 12) ''#3498db'']"
    by (simp add: solar_spec_def draw_defs)
  ultimately show ?thesis using a v d by auto
qed






text \<open>
  C8, as stated, fails when the duration is shorter than the period: the time is clamped
  to the duration first. The sanitized answer with an orbit of period 4000 in a
  visualisation of duration 1000 is drawn at (420, 200) at time 0 and at (320, 300), the
  position of time 1000, at time 4000.
\<close>

theorem orbit_clamped_before_period:
  "map_option ans_visualization (sanitizeAnswer orbit_answer)
     = Some (one_circle 1000 [Orbit (Fin 320) (Fin 200) (Fin 100) (Some (Fin 4000))])
   \<and> draw (one_circle 1000 [Orbit (Fin 320) (Fin 200) (Fin 100) (Some (Fin 4000))]) (Fin 0)
       = [DrawCircle (Fin 420) (Fin 200) (Fin 16) ''#3498db'']
   \<and> draw (one_circle 1000 [Orbit (Fin 320) (Fin 200) (Fin 100) (Some (Fin 4000))]) (Fin 4000)
       = [DrawCircle (Fin 320) (Fin 300) (Fin 16) ''#3498db'']"
  by (simp add: orbit_sanitized) (simp add: one_circle_def draw_defs)

text \<open>
  C8, amended: a circle with the orbit of period 4000 is drawn at the same place at time
  0 and at time 4000 when the duration of the specification is at least 4000. In general,
  for a period \<open>P > 0\<close> and a time \<open>t \<ge> 0\<close>, the orbit puts the circle at
  \<open>x = centerX + radius * cos (2 pi * (t mod P) / P)\<close>,
  \<open>y = centerY + radius * sin (2 pi * (t mod P) / P)\<close>, and the circle is drawn at the same
  place at \<open>t\<close> and at \<open>t + P\<close> as long as \<open>t + P\<close> is within the duration.
\<close>

theorem orbit_periodic_within_duration:
  "(4000 \<le> d \<longrightarrow>
      draw \<lparr>vis_id = i, vis_duration = Fin d, vis_fps = f,
            vis_layers = [Circle lid p [Orbit (Fin 320) (Fin 200) (Fin 100) (Some (Fin 4000))]]\<rparr>
        (Fin 4000)
      = draw \<lparr>vis_id = i, vis_duration = Fin d, vis_fps = f,
            vis_layers = [Circle lid p [Orbit (Fin 320) (Fin 200) (Fin 100) (Some (Fin 4000))]]\<rparr>
        (Fin 0))
   \<and> (0 < P \<and> 0 \<le> t \<and> t + P \<le> d \<longrightarrow>
      draw \<lparr>vis_id = i, vis_duration = Fin d, vis_fps = f,
            vis_layers = [Circle lid p [Orbit cx cy rad (Some (Fin P))]]\<rparr> (Fin (t + P))
      = draw \<lparr>vis_id = i, vis_duration = Fin d, vis_fps = f,
            vis_layers = [Circle lid p [Orbit cx cy rad (Some (Fin P))]]\<rparr> (Fin t))
   \<and> (0 < P \<and> 0 \<le> t \<longrightarrow>
      apply_anim dur (Fin t) (x, y, r) (Orbit (Fin ox) (Fin oy) (Fin orad) (Some (Fin P)))
      = (Fin (ox + orad * cos (2 * pi * ((t - P * of_int \<lfloor>t / P\<rfloor>) / P))),
         Fin (oy + orad * sin (2 * pi * ((t - P * of_int \<lfloor>t / P\<rfloor>) / P))), r))"
proof (intro conjI impI)
  assume "4000 \<le> d"
  then show "draw \<lparr>vis_id = i, vis_duration = Fin d, vis_fps = f,
            vis_layers = [Circle lid p [Orbit (Fin 320) (Fin 200) (Fin 100) (Some (Fin 4000))]]\<rparr>
        (Fin 4000)
      = draw \<lparr>vis_id = i, vis_duration = Fin d, vis_fps = f,
            vis_layers = [Circle lid p [Orbit (Fin 320) (Fin 200) (Fin 100) (Some (Fin 4000))]]\<rparr>
        (Fin 0)"
    using draw_orbit_period[of 4000 0 d i f lid p "Fin 320" "Fin 200" "Fin 100"] by simp
next
  assume "0 < P \<and> 0 \<le> t \<and> t + P \<le> d"
  then show "draw \<lparr>vis_id = i, vis_duration = Fin d, vis_fps = f,
            vis_layers = [Circle lid p [Orbit cx cy rad (Some (Fin P))]]\<rparr> (Fin (t + P))
      = draw \<lparr>vis_id = i, vis_duration = Fin d, vis_fps = f,
            vis_layers = [Circle lid p [Orbit cx cy rad (Some (Fin P))]]\<rparr> (Fin t)"
    by (intro draw_orbit_period) simp_all
next
  assume "0 < P \<and> 0 \<le> t"
  then show "apply_anim dur (Fin t) (x, y, r) (Orbit (Fin ox) (Fin oy) (Fin orad) (Some (Fin P)))
      = (Fin (ox + orad * cos (2 * pi * ((t - P * of_int \<lfloor>t / P\<rfloor>) / P))),
         Fin (oy + orad * sin (2 * pi * ((t - P * of_int \<lfloor>t / P\<rfloor>) / P))), r)"
    by (intro apply_orbit_formula) simp_all
qed

theorem orbit_periodic_within_duration_witness:
  "(4000 :: real) \<le> 6000
   \<and> draw (one_circle 6000 [Orbit (Fin 320) (Fin 200) (Fin 100) (Some (Fin 4000))]) (Fin 4000)
       = draw (one_circle 6000 [Orbit (Fin 320) (Fin 200) (Fin 100) (Some (Fin 4000))]) (Fin 0)
   \<and> draw (one_circle 6000 [Orbit (Fin 320) (Fin 200) (Fin 100) (Some (Fin 4000))]) (Fin 0)
       = [DrawCircle (Fin 420) (Fin 200) (Fin 16) ''#3498db'']
   \<and> (0 :: real) < 4000 \<and> (0 :: real) \<le> 1000 \<and> (1000 :: real) + 4000 \<le> 6000
   \<and> draw (one_circle 6000 [Orbit (Fin 320) (Fin 200) (Fin 100) (Some (Fin 4000))]) (Fin (1000 + 4000))
       = draw (one_circle 6000 [Orbit (Fin 320) (Fin 200) (Fin 100) (Some (Fin 4000))]) (Fin 1000)
   \<and> apply_anim (Fin 6000) (Fin 1000) (Fin 160, Fin 200, Fin 16)
        (Orbit (Fin 320) (Fin 200) (Fin 100) (Some (Fin 4000)))
       = (Fin 320, Fin 300, Fin 16)"
  using orbit_periodic_within_duration[of 6000 "JStr ''vis_safe''" "Fin 30" "JStr ''layer_0''"
      "\<lparr>circle_x = Fin 160, circle_y = Fin 200, circle_r = Fin 16, circle_fill = Some ''#3498db''\<rparr>"
      4000 1000 "Fin 320" "Fin 200" "Fin 100" "Fin 6000" "Fin 160" "Fin 200" "Fin 16" 320 200 100]
  by (simp add: one_circle_def) (simp add: draw_defs)





section \<open>Claims about numeric fields\<close>

text \<open>
  C10, as stated, fails for a value that is not a number and still converts to one:
  \<^verbatim>\<open>null\<close> converts to 0, so a circle whose \<open>x\<close> is \<^verbatim>\<open>null\<close> gets \<open>x\<close> = 0 and not the default
  160, and an animation whose \<^verbatim>\<open>to\<close> is \<^verbatim>\<open>null\<close> gets \<open>to\<close> = 0 and not the default 500 (its
  \<^verbatim>\<open>from\<close>, a string that is no number, gets the default 100).
\<close>

theorem null_is_converted_not_defaulted:
  "map_option ans_visualization (sanitizeAnswer coerced_answer)
     = Some \<lparr>vis_id = JStr ''vis_safe'', vis_duration = Fin 5000, vis_fps = Fin 30,
      vis_layers =
        [Circle (JStr ''layer_0'')
           \<lparr>circle_x = Fin 0, circle_y = Fin 200, circle_r = Fin 16,
            circle_fill = Some ''#3498db''\<rparr>
           [Linear ''x'' (Fin 100) (Fin 0) (Some (Fin 0)) (Some (Fin 5000))]]\<rparr>"
  by (rule coerced_sanitized)

text \<open>
  C10, amended: every numeric field of a specification returned by the sanitizer is a
  finite number. A value is replaced by the default of its field, before clamping, exactly
  when its conversion to a number (\<^verbatim>\<open>Number\<close>) is not finite; a value that converts to a
  finite number (\<^verbatim>\<open>null\<close> to 0, \<^verbatim>\<open>true\<close> to 1, a numeric string to its number) is used as
  converted. In particular \<^verbatim>\<open>from\<close> and \<^verbatim>\<open>to\<close> of a linear animation are finite, with the
  defaults 100 and 500 when the input does not convert to a finite number.
\<close>

theorem sanitized_numbers_finite:
  "(sanitizeAnswer ans = Some a \<longrightarrow> list_all isFinite (vis_nums (ans_visualization a)))
   \<and> (safeNumber v (Fin def) = Some n \<longrightarrow>
        n = (case ToNumber v of Fin r \<Rightarrow> Fin r | _ \<Rightarrow> Fin def))
   \<and> (sanitize_anim (Fin d) e = Some (Linear property from to start end) \<longrightarrow>
        from = (case ToNumber (getq e ''from'') of Fin r \<Rightarrow> Fin r | _ \<Rightarrow> Fin 100)
        \<and> to = (case ToNumber (getq e ''to'') of Fin r \<Rightarrow> Fin r | _ \<Rightarrow> Fin 500))"
proof (intro conjI impI)
  assume "sanitizeAnswer ans = Some a"
  then show "list_all isFinite (vis_nums (ans_visualization a))" by (rule sanitize_finite)
next
  assume "safeNumber v (Fin def) = Some n"
  then show "n = (case ToNumber v of Fin r \<Rightarrow> Fin r | _ \<Rightarrow> Fin def)" by (rule safeNumber_cases)
next
  assume l: "sanitize_anim (Fin d) e = Some (Linear property from to start end)"
  then have no: "getq e ''property'' \<noteq> JStr ''orbit''"
    by (auto simp: sanitize_anim_def bind_eq_Some_conv split: if_splits)
  with l have "safeNumber (getq e ''from'') (Fin 100) = Some from"
    and "safeNumber (getq e ''to'') (Fin 500) = Some to"
    by (auto simp: sanitize_anim_def bind_eq_Some_conv Let_def)
  then show "from = (case ToNumber (getq e ''from'') of Fin r \<Rightarrow> Fin r | _ \<Rightarrow> Fin 100)"
    and "to = (case ToNumber (getq e ''to'') of Fin r \<Rightarrow> Fin r | _ \<Rightarrow> Fin 500)"
    by (auto dest: safeNumber_cases)
qed

theorem sanitized_numbers_finite_witness:
  "\<exists>a. sanitizeAnswer coerced_answer = Some a
     \<and> vis_nums (ans_visualization a)
         = [Fin 5000, Fin 30, Fin 0, Fin 200, Fin 16, Fin 100, Fin 0, Fin 0, Fin 5000]
     \<and> list_all isFinite (vis_nums (ans_visualization a))
     \<and> safeNumber JNull (Fin 160) = Some (Fin 0)
     \<and> safeNumber (JStr ''abc'') (Fin 100) = Some (Fin 100)
     \<and> sanitize_anim (Fin 5000) (JObj [(''from'', JStr ''abc''), (''to'', JNull)])
         = Some (Linear ''x'' (Fin 100) (Fin 0) (Some (Fin 0)) (Some (Fin 5000)))"
proof -
  obtain a where a: "sanitizeAnswer coerced_answer = Some a"
    and v: "ans_visualization a
     = \<lparr>vis_id = JStr ''vis_safe'', vis_duration = Fin 5000, vis_fps = Fin 30,
      vis_layers =
        [Circle (JStr ''layer_0'')
           \<lparr>circle_x = Fin 0, circle_y = Fin 200, circle_r = Fin 16,
            circle_fill = Some ''#3498db''\<rparr>
           [Linear ''x'' (Fin 100) (Fin 0) (Some (Fin 0)) (Some (Fin 5000))]]\<rparr>"
    using coerced_sanitized by auto
  have n: "vis_nums (ans_visualization a)
         = [Fin 5000, Fin 30, Fin 0, Fin 200, Fin 16, Fin 100, Fin 0, Fin 0, Fin 5000]"
    by (simp add: v vis_nums_def opt_nums_def)
  have f: "list_all isFinite (vis_nums (ans_visualization a))"
    using sanitized_numbers_finite[of coerced_answer a] a by blast
  have s1: "safeNumber JNull (Fin 160) = Some (Fin 0)"
    by (simp add: safeNumber_def Number_def isFinite_def)
  have abc: "StringToNumber ''abc'' = NaN"
    by (simp add: StringToNumber_def radix_prefix_def signed_decimal_def unsigned_decimal_def
        span_digits_def is_digit_def trim_def is_ws_def Let_def)
  have s2: "safeNumber (JStr ''abc'') (Fin 100) = Some (Fin 100)"
    by (simp add: safeNumber_def Number_def isFinite_def abc)
  have s3: "sanitize_anim (Fin 5000) (JObj [(''from'', JStr ''abc''), (''to'', JNull)])
         = Some (Linear ''x'' (Fin 100) (Fin 0) (Some (Fin 0)) (Some (Fin 5000)))"
    by (simp add: sanitizer_defs abc Let_def)
  from a n f s1 s2 s3 show ?thesis by blast
qed

section \<open>Further properties of the sanitizer\<close>

text \<open>
  Apart from the default scene of a short duration, the result of the sanitizer
  satisfies every invariant of the data model: when the layers are not the default scene,
  or the duration is at least 1100, the identifier is truthy, the duration is within 1000
  and 10000, the frame rate within 1 and 60, the layers are not empty, every property is
  within its range and every window of a linear animation lies within the duration and
  spans at least 100 ms.
\<close>

theorem sanitize_spec_ok:
  assumes "sanitizeAnswer ans = Some a"
    and "vis_layers (ans_visualization a) \<noteq> default_layers (vis_duration (ans_visualization a))
         \<or> in_range 1100 10000 (vis_duration (ans_visualization a))"
  shows "spec_ok (ans_visualization a)"
proof -
  from assms(1) obtain d f where
    d: "vis_duration (ans_visualization a) = Fin d" "1000 \<le> d" "d \<le> 10000" and
    f: "vis_fps (ans_visualization a) = Fin f" "1 \<le> f" "f \<le> 60" and
    i: "truthy (vis_id (ans_visualization a))" and
    n: "vis_layers (ans_visualization a) \<noteq> []" and
    l: "vis_layers (ans_visualization a) = default_layers (Fin d)
     \<or> list_all (layer_ok (Fin d)) (vis_layers (ans_visualization a))"
    by (rule sanitize_fields)
  have "list_all (layer_ok (Fin d)) (vis_layers (ans_visualization a))"
  proof (cases "vis_layers (ans_visualization a) = default_layers (Fin d)")
    case True
    with assms(2) d have "1100 \<le> d" by (simp add: in_range_def)
    with d True show ?thesis
      by (simp add: default_layers_def jsub_def in_range_def isFinite_def)
  next
    case False
    with l show ?thesis by simp
  qed
  with d f i n show ?thesis by (simp add: spec_ok_def in_range_def)
qed

theorem sanitize_spec_ok_witness:
  "\<exists>a. sanitizeAnswer scenario_object = Some a
     \<and> vis_layers (ans_visualization a) \<noteq> default_layers (vis_duration (ans_visualization a))
     \<and> spec_ok (ans_visualization a)"
proof -
  obtain a where a: "sanitizeAnswer scenario_object = Some a"
    and l: "vis_layers (ans_visualization a) \<noteq> default_layers (vis_duration (ans_visualization a))"
    by (simp add: scenario_sanitized default_layers_def)
  from sanitize_spec_ok[OF a] l have "spec_ok (ans_visualization a)" by blast
  with a l show ?thesis by blast
qed

text \<open>
  The sanitizer raises on an answer in which a numeric field holds an object with a
  \<^verbatim>\<open>toString\<close> property of its own: the conversion of the object to a number finds no
  method that gives a primitive.
\<close>

theorem sanitize_raises_on_own_toString: "sanitizeAnswer raising_answer = None"
  by (simp add: raising_answer_def sanitizer_defs)

text \<open>
  Clamping: a circle whose \<open>x\<close> is 9999 gets \<open>x\<close> = 640, and one whose \<open>r\<close> is -5 gets
  \<open>r\<close> = 1.
\<close>

theorem clamp_examples:
  "clamped (JObj [(''x'', JNum (Fin 9999))]) ''x'' (Fin 160) (Fin 0) (Fin 640) = Some (Fin 640)
   \<and> clamped (JObj [(''r'', JNum (Fin (- 5)))]) ''r'' (Fin 16) (Fin 1) (Fin 120) = Some (Fin 1)"
  by (simp add: value_defs)

text \<open>
  An answer with an empty layer sequence, and the absent answer, get the default scene
  of two layers (with the default duration 5000 its animation ends at 4000).
\<close>

theorem empty_layers_default_scene:
  "map_option (vis_layers \<circ> ans_visualization)
     (sanitizeAnswer (JObj [(''visualization'', JObj [(''layers'', JArr [])])]))
     = Some (default_layers (Fin 5000))
   \<and> map_option (vis_layers \<circ> ans_visualization) (sanitizeAnswer JUndefined)
     = Some (default_layers (Fin 5000))
   \<and> default_layers (Fin 5000) =
       [Circle (JStr ''ball'')
          \<lparr>circle_x = Fin 120, circle_y = Fin 220, circle_r = Fin 18,
           circle_fill = Some ''#3498db''\<rparr>
          [Linear ''x'' (Fin 120) (Fin 520) (Some (Fin 0)) (Some (Fin 4000))],
        Arrow (JStr ''arrow'')
          \<lparr>arrow_x = Fin 90, arrow_y = Fin 220, arrow_dx = Fin 40, arrow_dy = Fin 0,
           arrow_color = Some ''#e74c3c''\<rparr>
          []]"
  by (simp add: sanitizer_defs)

subsection \<open>A canonical answer is a fixed point\<close>

lemma clamp_in_range:
  "lo \<le> v \<Longrightarrow> v \<le> hi \<Longrightarrow> clamp (Fin v) (Fin lo) (Fin hi) = Fin v"
  by (simp add: clamp_Fin)

lemma clamped_kept:
  assumes "in_range lo hi n" and "\<not> nullish p" and "lookup p k = JNum n"
  shows "clamped p k def (Fin lo) (Fin hi) = Some n"
  using assms
  by (cases n) (simp_all add: clamped_def get_def safeNumber_def Number_def isFinite_def
      in_range_def clamp_in_range)

lemma sanitize_anim_kept:
  assumes "anim_ok (Fin d) a"
  shows "sanitize_anim (Fin d) (anim_to_js a) = Some a"
proof (cases a)
  case (Linear p f t s e)
  with assms obtain f' t' s' e' where
    v: "f = Fin f'" "t = Fin t'" "s = Some (Fin s')" "e = Some (Fin e')" and
    w: "0 \<le> s'" "s' + 100 \<le> e'" "e' \<le> d" and p: "p = ''x'' \<or> p = ''y'' \<or> p = ''r''"
    by (auto simp: isFinite_iff elim!: window_ok.elims)
  from w have "clamp (Fin s') (Fin 0) (Fin (d - 100)) = Fin s'"
    by (intro clamp_in_range) simp_all
  moreover from w have "clamp (Fin e') (Fin (s' + 100)) (Fin d) = Fin e'"
    by (intro clamp_in_range) simp_all
  ultimately show ?thesis
    using p by (auto simp: Linear v sanitize_anim_def getq_def nullish_def opt_num_def
        safeNumber_def Number_def isFinite_def jsub_def)
next
  case (Orbit cx cy rad per)
  with assms obtain n where per: "per = Some n" and
    r: "in_range 0 640 cx" "in_range 0 400 cy" "in_range 10 250 rad" "in_range 500 10000 n"
    by (cases per) auto
  show ?thesis
    by (simp add: Orbit per sanitize_anim_def getq_def nullish_def opt_num_def
        clamped_kept[OF r(1)] clamped_kept[OF r(2)] clamped_kept[OF r(3)] clamped_kept[OF r(4)])
qed

lemma those_map_kept:
  assumes "\<forall>x \<in> set xs. f (g x) = Some x"
  shows "those (map f (map g xs)) = Some xs"
  using assms by (induction xs) simp_all

lemma sanitize_layer_kept:
  assumes "layer_ok (Fin d) l"
  shows "sanitize_layer (Fin d) (layer_to_js l) i = Some (Some l)"
proof (cases l)
  case (Circle lid p as)
  with assms obtain fill where fill: "circle_fill p = Some fill" and
    r: "in_range 0 640 (circle_x p)" "in_range 0 400 (circle_y p)" "in_range 1 120 (circle_r p)"
    and lid: "truthy lid" and as: "list_all (anim_ok (Fin d)) as"
    by auto
  have n: "\<not> nullish lid" using lid by (auto simp: nullish_def)
  from as have "those (map (sanitize_anim (Fin d)) (map anim_to_js as)) = Some as"
    by (intro those_map_kept) (auto simp: list_all_iff sanitize_anim_kept)
  then show ?thesis
    using lid fill
    by (simp add: Circle sanitize_layer_def getq_def get_def nullish_def props_of_def opt_str_def
        string_or_def clamped_kept[OF r(1)] clamped_kept[OF r(2)] clamped_kept[OF r(3)])
next
  case (Arrow lid p as)
  with assms obtain color where color: "arrow_color p = Some color" and
    r: "in_range 0 640 (arrow_x p)" "in_range 0 400 (arrow_y p)"
       "in_range (- 640) 640 (arrow_dx p)" "in_range (- 400) 400 (arrow_dy p)"
    and lid: "truthy lid" and as: "as = []"
    by auto
  show ?thesis
    using lid color as
    by (simp add: Arrow sanitize_layer_def getq_def get_def nullish_def props_of_def opt_str_def
        string_or_def clamped_kept[OF r(1)] clamped_kept[OF r(2)] clamped_kept[OF r(3)]
        clamped_kept[OF r(4)])
next
  case (Lottie lid p as)
  with assms have
    r: "in_range 0 640 (lottie_x p)" "in_range 0 400 (lottie_y p)"
       "in_range 40 640 (lottie_width p)" "in_range 40 400 (lottie_height p)"
    and lid: "truthy lid" and as: "as = []"
    by auto
  show ?thesis
    using lid as
    by (simp add: Lottie sanitize_layer_def getq_def get_def nullish_def props_of_def
        string_or_def clamped_kept[OF r(1)] clamped_kept[OF r(2)] clamped_kept[OF r(3)]
        clamped_kept[OF r(4)])
qed

lemma sanitize_layers_kept:
  assumes "list_all (layer_ok (Fin d)) ls"
  shows "sanitize_layers (Fin d) (map layer_to_js ls) = Some ls"
proof -
  have "those (map (\<lambda>(i, l). sanitize_layer (Fin d) l i) (enumerate n (map layer_to_js ls)))
        = Some (map Some ls)" for n
    using assms
  proof (induction ls arbitrary: n)
    case Nil
    then show ?case by simp
  next
    case (Cons l ls)
    then show ?case by (simp add: sanitize_layer_kept)
  qed
  then show ?thesis
    by (simp add: sanitize_layers_def List.map_filter_def comp_def)
qed

lemma canonical_fixed:
  assumes "canonical a"
  shows "sanitizeAnswer (answer_to_js a) = Some a"
proof -
  obtain d where d: "vis_duration (ans_visualization a) = Fin d" "in_range 1000 10000 (Fin d)"
    using assms by (cases "vis_duration (ans_visualization a)") (auto simp: canonical_def spec_ok_def in_range_def)
  have f: "in_range 1 60 (vis_fps (ans_visualization a))" and i: "truthy (vis_id (ans_visualization a))"
    and ne: "vis_layers (ans_visualization a) \<noteq> []"
    and ls: "list_all (layer_ok (Fin d)) (vis_layers (ans_visualization a))"
    and t: "ans_text a \<noteq> []" "trim (ans_text a) = ans_text a"
    using assms d by (auto simp: canonical_def spec_ok_def)
  have vis: "vis_of (answer_to_js a) = vis_to_js (ans_visualization a)"
    by (simp add: vis_of_def answer_to_js_def vis_to_js_def getq_def nullish_def)
  have nn: "\<not> nullish (vis_to_js (ans_visualization a))" by (simp add: nullish_def vis_to_js_def)
  have tx: "text_of (answer_to_js a) = ans_text a"
    using t by (simp add: text_of_def answer_to_js_def getq_def nullish_def)
  have du: "clamped (vis_to_js (ans_visualization a)) ''duration'' (Fin 5000) (Fin 1000) (Fin 10000) = Some (Fin d)"
    by (rule clamped_kept[OF d(2) nn]) (simp add: vis_to_js_def d)
  have fp: "clamped (vis_to_js (ans_visualization a)) ''fps'' (Fin 30) (Fin 1) (Fin 60) = Some (vis_fps (ans_visualization a))"
    by (rule clamped_kept[OF f nn]) (simp add: vis_to_js_def)
  have ly: "sanitize_layers (Fin d) (entries_of (lookup (vis_to_js (ans_visualization a)) ''layers''))
      = Some (vis_layers (ans_visualization a))"
    using sanitize_layers_kept[OF ls] by (simp add: vis_to_js_def entries_of_def)
  have id: "lookup (vis_to_js (ans_visualization a)) ''id'' = vis_id (ans_visualization a)"
    by (simp add: vis_to_js_def)
  have "sanitizeAnswer (answer_to_js a) =
      Some \<lparr>ans_text = ans_text a,
            ans_visualization =
              \<lparr>vis_id = vis_id (ans_visualization a), vis_duration = Fin d,
               vis_fps = vis_fps (ans_visualization a),
               vis_layers = vis_layers (ans_visualization a)\<rparr>\<rparr>"
    using i ne by (simp add: sanitizeAnswer_def vis tx du fp get_def nn ly id)
  then show ?thesis by (simp add: d(1)[symmetric])
qed

lemma dropWhile_keeps: "xs = [] \<or> \<not> P (hd xs) \<Longrightarrow> dropWhile P xs = xs"
  by (cases xs) auto

lemma trim_idem: "trim (trim s) = trim s"
proof -
  define w where "w = dropWhile is_ws s"
  define u where "u = dropWhile is_ws (rev w)"
  have t: "trim s = rev u" by (simp add: trim_def u_def w_def)
  have lead: "dropWhile is_ws (rev u) = rev u"
  proof (cases "u = []")
    case True
    then show ?thesis by simp
  next
    case False
    have "rev w = takeWhile is_ws (rev w) @ u" by (simp add: u_def)
    with False have "last u = last (rev w)" by (metis last_appendR)
    moreover from False have "w \<noteq> []" by (auto simp: u_def)
    ultimately have "last u = hd w" by (simp add: last_rev)
    moreover from \<open>w \<noteq> []\<close> have "\<not> is_ws (hd w)"
      unfolding w_def by (rule hd_dropWhile)
    ultimately have "\<not> is_ws (hd (rev u))" using False by (simp add: hd_rev)
    then show ?thesis by (intro dropWhile_keeps) simp
  qed
  have tail: "dropWhile is_ws u = u" by (simp add: u_def)
  have "trim (rev u) = rev (dropWhile is_ws (rev (dropWhile is_ws (rev u))))"
    by (simp only: trim_def)
  also have "\<dots> = rev (dropWhile is_ws (rev (rev u)))" by (simp only: lead)
  also have "\<dots> = rev u" by (simp add: tail)
  finally show ?thesis by (simp only: t)
qed

lemma fallback_text_trimmed: "fallback_text \<noteq> [] \<and> trim fallback_text = fallback_text"
  by (simp add: fallback_text_def trim_def is_ws_def)

lemma text_of_trimmed: "text_of v \<noteq> [] \<and> trim (text_of v) = text_of v"
  by (cases "getq v ''text''") (auto simp: text_of_def fallback_text_trimmed trim_idem)

text \<open>
  Outside the default scene of a short duration the sanitizer reproduces its own result:
  when the layers of the result are not the default scene, or its duration is at least
  1100, a second pass returns the same answer.
\<close>

theorem sanitize_idempotent_elsewhere:
  assumes "sanitizeAnswer ans = Some a"
    and "vis_layers (ans_visualization a) \<noteq> default_layers (vis_duration (ans_visualization a))
         \<or> in_range 1100 10000 (vis_duration (ans_visualization a))"
  shows "sanitize_twice ans = Some a"
proof -
  from assms have "spec_ok (ans_visualization a)" by (rule sanitize_spec_ok)
  moreover from assms(1) have "ans_text a = text_of ans"
    by (rule sanitizeAnswer_Some) simp
  ultimately have "canonical a" by (simp add: canonical_def text_of_trimmed)
  then have "sanitizeAnswer (answer_to_js a) = Some a" by (rule canonical_fixed)
  with assms(1) show ?thesis by (simp add: sanitize_twice_def)
qed

theorem sanitize_idempotent_elsewhere_witness:
  "\<exists>a. sanitizeAnswer scenario_object = Some a
     \<and> vis_layers (ans_visualization a) \<noteq> default_layers (vis_duration (ans_visualization a))
     \<and> sanitize_twice scenario_object = Some a"
proof -
  obtain a where a: "sanitizeAnswer scenario_object = Some a"
    and l: "vis_layers (ans_visualization a) \<noteq> default_layers (vis_duration (ans_visualization a))"
    by (simp add: scenario_sanitized default_layers_def)
  from sanitize_idempotent_elsewhere[OF a] l have "sanitize_twice scenario_object = Some a"
    by blast
  with a l show ?thesis by blast
qed

subsection \<open>The sanitizer returns on plain values\<close>

lemma plain_not_raises: "plain v \<Longrightarrow> \<not> to_primitive_raises v"
  by (induction v rule: to_primitive_raises.induct) (auto simp: list_all_iff list_ex_iff)

lemma plain_lookup: "plain v \<Longrightarrow> plain (lookup v k)"
proof (cases v)
  case (JObj kvs)
  assume "plain v"
  with JObj show ?thesis
    by (fastforce simp: list_all_iff split: option.splits dest!: map_of_SomeD)
qed simp_all

lemma plain_getq: "plain v \<Longrightarrow> plain (getq v k)"
  by (simp add: getq_def plain_lookup)

lemma safeNumber_total: "plain v \<Longrightarrow> \<exists>n. safeNumber v def = Some n"
  by (simp add: safeNumber_def Number_def plain_not_raises)

lemma clamped_total: "plain p \<Longrightarrow> \<not> nullish p \<Longrightarrow> \<exists>n. clamped p k def mn mx = Some n"
  using safeNumber_total[of "lookup p k" def]
  by (auto simp: clamped_def get_def plain_lookup)

lemma sanitize_anim_total:
  assumes "plain a"
  shows "\<exists>an. sanitize_anim duration a = Some an"
proof (cases "getq a ''property'' = JStr ''orbit''")
  case True
  then have n: "\<not> nullish a" by (auto simp: getq_def split: if_splits)
  from clamped_total[OF assms n] obtain cx cy rad per where
    "clamped a ''centerX'' (Fin 320) (Fin 0) (Fin 640) = Some cx"
    "clamped a ''centerY'' (Fin 200) (Fin 0) (Fin 400) = Some cy"
    "clamped a ''radius'' (Fin 100) (Fin 10) (Fin 250) = Some rad"
    "clamped a ''duration'' duration (Fin 500) (Fin 10000) = Some per"
    by metis
  with True show ?thesis by (simp add: sanitize_anim_def)
next
  case False
  from safeNumber_total[OF plain_getq[OF assms]] obtain s e f t where
    "safeNumber (getq a ''start'') (Fin 0) = Some s"
    "safeNumber (getq a ''end'') duration = Some e"
    "safeNumber (getq a ''from'') (Fin 100) = Some f"
    "safeNumber (getq a ''to'') (Fin 500) = Some t"
    by metis
  with False show ?thesis by (simp add: sanitize_anim_def Let_def)
qed

lemma those_map_total:
  assumes "\<forall>x \<in> set xs. \<exists>y. f x = Some y"
  shows "\<exists>ys. those (map f xs) = Some ys"
  using assms by (induction xs) auto

lemma props_of_total:
  assumes "plain l" and "\<not> nullish l"
  shows "\<exists>p. props_of l = Some p \<and> plain p \<and> \<not> nullish p"
  using assms plain_lookup[of l "''props''"]
  by (auto simp: props_of_def get_def nullish_def)

lemma sanitize_layer_total:
  assumes "plain l"
  shows "\<exists>r. sanitize_layer duration l i = Some r"
proof -
  consider (circle) "getq l ''type'' = JStr ''circle''"
    | (arrow) "getq l ''type'' = JStr ''arrow''"
    | (lottie) "getq l ''type'' = JStr ''lottie''"
    | (other) "getq l ''type'' \<noteq> JStr ''circle''" "getq l ''type'' \<noteq> JStr ''arrow''"
        "getq l ''type'' \<noteq> JStr ''lottie''"
    by blast
  then show ?thesis
  proof cases
    case circle
    then have n: "\<not> nullish l" by (auto simp: getq_def split: if_splits)
    from props_of_total[OF assms n] obtain p where
      p: "props_of l = Some p" "plain p" "\<not> nullish p" by blast
    from clamped_total[OF p(2,3)] obtain x y r where
      "clamped p ''x'' (Fin 160) (Fin 0) (Fin 640) = Some x"
      "clamped p ''y'' (Fin 200) (Fin 0) (Fin 400) = Some y"
      "clamped p ''r'' (Fin 16) (Fin 1) (Fin 120) = Some r"
      by metis
    moreover have "\<exists>as. (case lookup l ''animations'' of
        JArr es \<Rightarrow> those (map (sanitize_anim duration) es) | _ \<Rightarrow> Some []) = Some as"
    proof (cases "lookup l ''animations''")
      case (JArr es)
      from assms have "plain (JArr es)" using plain_lookup[of l "''animations''"] JArr by simp
      then have "\<exists>as. those (map (sanitize_anim duration) es) = Some as"
        by (intro those_map_total) (auto simp: list_all_iff sanitize_anim_total)
      with JArr show ?thesis by simp
    qed simp_all
    ultimately show ?thesis
      using circle p n by (auto simp: sanitize_layer_def get_def)
  next
    case arrow
    then have n: "\<not> nullish l" by (auto simp: getq_def split: if_splits)
    from props_of_total[OF assms n] obtain p where
      p: "props_of l = Some p" "plain p" "\<not> nullish p" by blast
    from clamped_total[OF p(2,3)] obtain x y dx dy where
      "clamped p ''x'' (Fin 90) (Fin 0) (Fin 640) = Some x"
      "clamped p ''y'' (Fin 220) (Fin 0) (Fin 400) = Some y"
      "clamped p ''dx'' (Fin 40) (Fin (- 640)) (Fin 640) = Some dx"
      "clamped p ''dy'' (Fin 0) (Fin (- 400)) (Fin 400) = Some dy"
      by metis
    then show ?thesis
      using arrow p by (auto simp: sanitize_layer_def get_def)
  next
    case lottie
    then have n: "\<not> nullish l" by (auto simp: getq_def split: if_splits)
    from props_of_total[OF assms n] obtain p where
      p: "props_of l = Some p" "plain p" "\<not> nullish p" by blast
    from clamped_total[OF p(2,3)] obtain x y w h where
      "clamped p ''x'' (Fin 430) (Fin 0) (Fin 640) = Some x"
      "clamped p ''y'' (Fin 140) (Fin 0) (Fin 400) = Some y"
      "clamped p ''width'' (Fin 180) (Fin 40) (Fin 640) = Some w"
      "clamped p ''height'' (Fin 180) (Fin 40) (Fin 400) = Some h"
      by metis
    then show ?thesis
      using lottie p by (auto simp: sanitize_layer_def get_def)
  next
    case other
    then show ?thesis by (simp add: sanitize_layer_def)
  qed
qed

text \<open>
  On a value none of whose objects has a \<^verbatim>\<open>toString\<close> property of its own (\<^verbatim>\<open>null\<close>,
  \<^verbatim>\<open>undefined\<close>, numbers, strings, arrays and ordinary objects, nested to any depth), the
  sanitizer returns an answer and does not raise.
\<close>

theorem sanitize_total:
  assumes "plain ans"
  shows "\<exists>a. sanitizeAnswer ans = Some a"
proof -
  have pv: "plain (vis_of ans)" using assms by (simp add: vis_of_def plain_getq)
  have nv: "\<not> nullish (vis_of ans)" by (auto simp: vis_of_def nullish_def)
  from clamped_total[OF pv nv] obtain d f where
    d: "clamped (vis_of ans) ''duration'' (Fin 5000) (Fin 1000) (Fin 10000) = Some d" and
    f: "clamped (vis_of ans) ''fps'' (Fin 30) (Fin 1) (Fin 60) = Some f"
    by metis
  have "list_all plain (entries_of (lookup (vis_of ans) ''layers''))"
    using plain_lookup[OF pv, of "''layers''"]
    by (cases "lookup (vis_of ans) ''layers''") (simp_all add: entries_of_def)
  then have "\<exists>m. those (map (\<lambda>(i, l). sanitize_layer d l i)
      (enumerate 0 (entries_of (lookup (vis_of ans) ''layers'')))) = Some m"
    by (intro those_map_total) (auto simp: list_all_iff in_set_enumerate_eq sanitize_layer_total)
  then obtain ls where
    "sanitize_layers d (entries_of (lookup (vis_of ans) ''layers'')) = Some ls"
    by (auto simp: sanitize_layers_def)
  with d f show ?thesis by (simp add: sanitizeAnswer_def vis_of_get)
qed

theorem sanitize_total_witness:
  "plain scenario_object \<and> plain JNull \<and> plain (JArr [JObj [], JStr ''x''])
   \<and> (\<exists>a. sanitizeAnswer scenario_object = Some a)
   \<and> (\<exists>a. sanitizeAnswer JNull = Some a)
   \<and> (\<exists>a. sanitizeAnswer (JArr [JObj [], JStr ''x'']) = Some a)"
proof -
  have p: "plain scenario_object" "plain JNull" "plain (JArr [JObj [], JStr ''x''])"
    by (simp_all add: scenario_object_def)
  from p(1) have "\<exists>a. sanitizeAnswer scenario_object = Some a" by (rule sanitize_total)
  moreover from p(2) have "\<exists>a. sanitizeAnswer JNull = Some a" by (rule sanitize_total)
  moreover from p(3) have "\<exists>a. sanitizeAnswer (JArr [JObj [], JStr ''x'']) = Some a"
    by (rule sanitize_total)
  ultimately show ?thesis using p by simp
qed

end
